theory Spec2Isabelle
  imports Complex_Main
begin

section \<open>Data model of main.py\<close>

text \<open>
  The generator is a Python script. Its floats are IEEE binary64 numbers; the model carries
  each as the real number it denotes, and an operation that rounds is the exact operation
  followed by \<open>rd\<close>, rounding to the nearest number of 53 significant bits (section
  Geometry). Its exceptions are values of \<open>py_error\<close>, and the
  global random generator is an explicit state: a tape of natural numbers and a cursor.
  Every sequence of outcomes of \<open>random.choice\<close> is the behaviour of some tape, so a
  statement for all tapes is a statement for all random outcomes. The configuration is
  taken as parsed and well typed: every key the script reads is present, and its numbers
  are doubles or integers that a double holds exactly. What svgwrite
  itself checks when it builds a primitive is not part of the model.
\<close>

datatype py_error = IndexError | KeyError | AttributeError | RecursionError

record rng =
  tape :: "nat \<Rightarrow> nat"
  pos :: nat

type_synonym point = "real \<times> real"

text \<open>The \<open>style\<close> dictionary of a component: the four option lists.\<close>

record style =
  fill_options :: "string list"
  opacity_options :: "real list"
  size_options :: "real list"
  rotation_options :: "real list"

text \<open>
  One entry of \<open>element_defs\<close> in parameters.yaml, with every key the script may read.
  \<open>None\<close> in \<open>center_elements\<close> and \<open>vertex_elements\<close> is YAML's null.
\<close>

record element_def =
  etype :: string
  eid :: string
  estyle :: style
  vertex_count :: "int list"
  center_elements :: "string option list"
  vertex_count_options :: "int list"
  vertex_elements :: "string option list"

text \<open>
  The parsed parameters.yaml. \<open>canvas_size\<close> holds the pair that \<open>parse_canvas_size\<close>
  returns; \<open>element_defs\<close> is the mapping in file order.
\<close>

record params =
  canvas_size :: "int \<times> int"
  component_to_draw :: "string list"
  element_defs :: "(string \<times> element_def) list"

text \<open>
  Instances of the classes: the id, the style and the values drawn in \<open>__init__\<close>
  (vertex_count, then for PolygonGroup vertex_elements, then center_element).
\<close>

datatype component =
    Circle string style
  | Rect string style
  | Ellipse string style
  | Polygon string style int "string option"
  | PolygonGroup string style int "string option" "string option"

fun style_of :: "component \<Rightarrow> style" where
  "style_of (Circle i st) = st"
| "style_of (Rect i st) = st"
| "style_of (Ellipse i st) = st"
| "style_of (Polygon i st vc ce) = st"
| "style_of (PolygonGroup i st vc ve ce) = st"

text \<open>
  What svgwrite's factory calls build: a primitive with its geometry, fill, opacity and
  the optional \<open>rotate(angle, center)\<close> transform, or a \<open>Group\<close> with its children in the
  order they were added.
\<close>

datatype node =
    CircleNode point real string real
  | RectNode point point string real "(real \<times> point) option"
  | EllipseNode point point string real "(real \<times> point) option"
  | PolygonNode "point list" string real "(real \<times> point) option"
  | Group "node list"

section \<open>Style resolution\<close>

text \<open>\<open>random.choice\<close> raises IndexError on an empty sequence.\<close>

definition random_choice :: "'a list \<Rightarrow> rng \<Rightarrow> py_error + ('a \<times> rng)" where
  "random_choice options g =
     (if options = [] then Inl IndexError
      else Inr (options ! (tape g (pos g) mod length options), g\<lparr>pos := Suc (pos g)\<rparr>))"

section \<open>Geometry\<close>

text \<open>
  Rounding to nearest, ties to even: the integer nearest to a real, the even one of the two
  when the real lies half way.
\<close>

definition round_half_even :: "real \<Rightarrow> int" where
  "round_half_even v =
     (let f = \<lfloor>v\<rfloor>; d = v - of_int f
      in if d < 1 / 2 then f else if 1 / 2 < d then f + 1
         else if even f then f else f + 1)"

text \<open>
  \<open>rd x\<close> is the double nearest to \<open>x\<close>: with \<open>2 ^ e \<le> \<bar>x\<bar> < 2 ^ (e + 1)\<close> the doubles around
  \<open>x\<close> are the multiples of \<open>2 ^ (e - 52)\<close>, and \<open>x\<close> goes to the nearest one, a tie to the
  one with the even multiplier. The exponent is not bounded: overflow to infinity and the
  subnormal numbers below \<open>2 ^ -1022\<close> are outside the model. The operators \<open>+\<close>, \<open>-\<close>, \<open>*\<close> and
  \<open>/\<close> on floats return the rounded exact result. Halving and quartering a double change
  its exponent only and round nothing, so \<open>size / 2\<close>, \<open>size / 4\<close>, \<open>size * 0.5\<close> and
  \<open>canvas_width / 2\<close> are written as the exact operations.
\<close>

definition rd :: "real \<Rightarrow> real" where
  "rd x =
     (if x = 0 then 0
      else let u = 2 powr (of_int \<lfloor>log 2 \<bar>x\<bar>\<rfloor> - 52)
           in of_int (round_half_even (x / u)) * u)"

definition fadd :: "real \<Rightarrow> real \<Rightarrow> real" where
  "fadd a b = rd (a + b)"

definition fsub :: "real \<Rightarrow> real \<Rightarrow> real" where
  "fsub a b = rd (a - b)"

definition fmul :: "real \<Rightarrow> real \<Rightarrow> real" where
  "fmul a b = rd (a * b)"

definition fdiv :: "real \<Rightarrow> real \<Rightarrow> real" where
  "fdiv a b = rd (a / b)"

text \<open>
  \<open>math.pi\<close> is the double nearest to \<open>pi\<close>. \<open>math.cos\<close> and \<open>math.sin\<close> are taken to return
  the double nearest to the exact cosine and sine of their argument; the C library they
  call stays within one unit in the last place of that.
\<close>

definition py_pi :: real where
  "py_pi = rd pi"

definition py_cos :: "real \<Rightarrow> real" where
  "py_cos x = rd (cos x)"

definition py_sin :: "real \<Rightarrow> real" where
  "py_sin x = rd (sin x)"

text \<open>
  \<open>round(v, 7)\<close> rounds the exact value of the double \<open>v\<close> to the nearest multiple of 1e-7,
  a tie going to the even neighbour, and returns the double nearest to that decimal.
\<close>

definition decimal7 :: "real \<Rightarrow> real" where
  "decimal7 v = of_int (round_half_even (v * 10 ^ 7)) / 10 ^ 7"

definition round7 :: "real \<Rightarrow> real" where
  "round7 v = rd (decimal7 v)"

text \<open>
  \<open>_rotate\<close>: \<open>(round(p[0] * cos(-angle) - p[1] * sin(-angle), 7),
  round(p[0] * sin(-angle) + p[1] * cos(-angle), 7))\<close>, every operation in doubles.
\<close>

definition rotate :: "point \<Rightarrow> real \<Rightarrow> point" where
  "rotate p angle =
     (round7 (fsub (fmul (fst p) (py_cos (- angle))) (fmul (snd p) (py_sin (- angle)))),
      round7 (fadd (fmul (fst p) (py_sin (- angle))) (fmul (snd p) (py_cos (- angle)))))"

text \<open>
  The loop \<open>for i in range(vertex_count): p = _rotate(p, angle); points_list.append(p)\<close>,
  returning the points it appends.
\<close>

fun rotate_loop :: "nat \<Rightarrow> real \<Rightarrow> point \<Rightarrow> point list" where
  "rotate_loop 0 angle p = []"
| "rotate_loop (Suc k) angle p = (let q = rotate p angle in q # rotate_loop k angle q)"

text \<open>
  The first lines of the three draw methods that build a polygon: the seed, the loop with
  the angle \<open>(360 / vertex_count) * (math.pi / 180)\<close>, the translation by the center.
  \<open>range\<close> of a count that is not positive is empty, and the angle is computed in the loop
  body only.
\<close>

definition polygon_points :: "int \<Rightarrow> point \<Rightarrow> real \<Rightarrow> point list" where
  "polygon_points vc center sz =
     (let p = (0, sz * 0.5);
          points_list = p # rotate_loop (nat vc) (fmul (fdiv 360 (of_int vc)) (fdiv py_pi 180)) p
      in map (\<lambda>i. (fadd (fst i) (fst center), fadd (snd i) (snd center))) points_list)"

section \<open>Building the components\<close>

fun create_component :: "element_def \<Rightarrow> rng \<Rightarrow> py_error + (component option \<times> rng)" where
  "create_component d g =
     (if etype d = ''Circle'' then Inr (Some (Circle (eid d) (estyle d)), g)
      else if etype d = ''Rect'' then Inr (Some (Rect (eid d) (estyle d)), g)
      else if etype d = ''Ellipse'' then Inr (Some (Ellipse (eid d) (estyle d)), g)
      else if etype d = ''Polygon'' then
        (case random_choice (vertex_count d) g of
           Inl e \<Rightarrow> Inl e
         | Inr (vc, g1) \<Rightarrow>
             (case random_choice (center_elements d) g1 of
                Inl e \<Rightarrow> Inl e
              | Inr (ce, g2) \<Rightarrow> Inr (Some (Polygon (eid d) (estyle d) vc ce), g2)))
      else if etype d = ''PolygonGroup'' then
        (case random_choice (vertex_count_options d) g of
           Inl e \<Rightarrow> Inl e
         | Inr (vc, g1) \<Rightarrow>
             (case random_choice (vertex_elements d) g1 of
                Inl e \<Rightarrow> Inl e
              | Inr (ve, g2) \<Rightarrow>
                  (case random_choice (center_elements d) g2 of
                     Inl e \<Rightarrow> Inl e
                   | Inr (ce, g3) \<Rightarrow>
                       Inr (Some (PolygonGroup (eid d) (estyle d) vc ve ce), g3))))
      else Inr (None, g))"

text \<open>
  \<open>parse_components\<close>: the loop over \<open>element_defs\<close>, storing each created component (or
  the None of an unknown type) under its key.
\<close>

fun build_components ::
  "(string \<times> element_def) list \<Rightarrow> (string \<rightharpoonup> component option) \<Rightarrow> rng
     \<Rightarrow> py_error + ((string \<rightharpoonup> component option) \<times> rng)" where
  "build_components [] components g = Inr (components, g)"
| "build_components ((key, val) # rest) components g =
     (case create_component val g of
        Inl e \<Rightarrow> Inl e
      | Inr (c, g1) \<Rightarrow> build_components rest (components(key \<mapsto> c)) g1)"

definition parse_components ::
  "params \<Rightarrow> rng \<Rightarrow> py_error + ((string \<rightharpoonup> component option) \<times> rng)" where
  "parse_components prm g = build_components (element_defs prm) Map.empty g"

section \<open>Drawing\<close>

definition rotation_transform :: "real \<Rightarrow> point \<Rightarrow> (real \<times> point) option" where
  "rotation_transform rotation center = (if rotation \<noteq> 0 then Some (rotation, center) else None)"

definition Circle_draw ::
  "style \<Rightarrow> point \<Rightarrow> real \<Rightarrow> real \<Rightarrow> rng \<Rightarrow> py_error + (node \<times> rng)" where
  "Circle_draw st center sz rotation g =
     (case random_choice (fill_options st) g of
        Inl e \<Rightarrow> Inl e
      | Inr (fill, g1) \<Rightarrow>
          (case random_choice (opacity_options st) g1 of
             Inl e \<Rightarrow> Inl e
           | Inr (opacity, g2) \<Rightarrow> Inr (CircleNode center (sz / 2) fill opacity, g2)))"

definition Rect_draw ::
  "style \<Rightarrow> point \<Rightarrow> real \<Rightarrow> real \<Rightarrow> rng \<Rightarrow> py_error + (node \<times> rng)" where
  "Rect_draw st center sz rotation g =
     (case random_choice (fill_options st) g of
        Inl e \<Rightarrow> Inl e
      | Inr (fill, g1) \<Rightarrow>
          (case random_choice (opacity_options st) g1 of
             Inl e \<Rightarrow> Inl e
           | Inr (opacity, g2) \<Rightarrow>
               Inr (RectNode (fsub (fst center) (sz / 2), fsub (snd center) (sz / 2)) (sz, sz)
                      fill opacity (rotation_transform rotation center), g2)))"

definition Ellipse_draw ::
  "style \<Rightarrow> point \<Rightarrow> real \<Rightarrow> real \<Rightarrow> rng \<Rightarrow> py_error + (node \<times> rng)" where
  "Ellipse_draw st center sz rotation g =
     (case random_choice (fill_options st) g of
        Inl e \<Rightarrow> Inl e
      | Inr (fill, g1) \<Rightarrow>
          (case random_choice (opacity_options st) g1 of
             Inl e \<Rightarrow> Inl e
           | Inr (opacity, g2) \<Rightarrow>
               Inr (EllipseNode center (sz / 2, sz / 4)
                      fill opacity (rotation_transform rotation center), g2)))"

text \<open>
  \<open>PolygonGroup.draw_child_polygon\<close>: a polygon with the group's vertex count and style
  options, rotated about its own center when the rotation is not 0.
\<close>

definition draw_child_polygon ::
  "style \<Rightarrow> int \<Rightarrow> point \<Rightarrow> real \<Rightarrow> real \<Rightarrow> rng \<Rightarrow> py_error + (node \<times> rng)" where
  "draw_child_polygon st vc center sz rotation g =
     (let points_list = polygon_points vc center sz
      in case random_choice (fill_options st) g of
           Inl e \<Rightarrow> Inl e
         | Inr (fill, g1) \<Rightarrow>
             (case random_choice (opacity_options st) g1 of
                Inl e \<Rightarrow> Inl e
              | Inr (opacity, g2) \<Rightarrow>
                  Inr (PolygonNode points_list fill opacity
                         (rotation_transform rotation center), g2)))"

text \<open>
  The loop of the \<open>"polygon"\<close> case: \<open>for i in range(vertex_count)\<close>, a child polygon at
  \<open>points_list[i]\<close>, the children in the order they are added to the group.
\<close>

fun draw_child_polygons ::
  "style \<Rightarrow> int \<Rightarrow> point list \<Rightarrow> nat list \<Rightarrow> real \<Rightarrow> real \<Rightarrow> rng
     \<Rightarrow> py_error + (node list \<times> rng)" where
  "draw_child_polygons st vc points_list [] sz rotation g = Inr ([], g)"
| "draw_child_polygons st vc points_list (i # is) sz rotation g =
     (case draw_child_polygon st vc (points_list ! i) sz rotation g of
        Inl e \<Rightarrow> Inl e
      | Inr (child, g1) \<Rightarrow>
          (case draw_child_polygons st vc points_list is sz rotation g1 of
             Inl e \<Rightarrow> Inl e
           | Inr (children, g2) \<Rightarrow> Inr (child # children, g2)))"

text \<open>
  The recursive part. The first argument is the number of nested \<open>draw_component\<close> calls
  the interpreter's stack still has room for, each with the draw method it calls and
  the library calls these make; a call made when it is 0 raises RecursionError. It is not
  the recursion limit itself: the limit counts frames, and a nesting level takes two
  frames of the script, \<open>draw_component\<close> and the draw method, besides those of the
  libraries. \<open>draw_component\<close> re-reads the configuration and rebuilds every component
  before it looks the requested one up. A missing id is a KeyError, the None of an unknown
  type an AttributeError at \<open>component.style\<close>.
\<close>

function (sequential) draw_component :: "nat \<Rightarrow> params \<Rightarrow> point \<Rightarrow> string \<Rightarrow> rng \<Rightarrow> py_error + (node \<times> rng)"
  and draw ::
    "nat \<Rightarrow> params \<Rightarrow> component \<Rightarrow> point \<Rightarrow> real \<Rightarrow> real \<Rightarrow> rng \<Rightarrow> py_error + (node \<times> rng)"
  and draw_vertex_circles ::
    "nat \<Rightarrow> params \<Rightarrow> point list \<Rightarrow> nat list \<Rightarrow> rng \<Rightarrow> py_error + (node list \<times> rng)"
where
  "draw_component 0 prm center center_element g = Inl RecursionError"
| "draw_component (Suc n) prm center center_element g =
     (case parse_components prm g of
        Inl e \<Rightarrow> Inl e
      | Inr (components, g1) \<Rightarrow>
          (case components center_element of
             None \<Rightarrow> Inl KeyError
           | Some None \<Rightarrow> Inl AttributeError
           | Some (Some component) \<Rightarrow>
               (case random_choice (size_options (style_of component)) g1 of
                  Inl e \<Rightarrow> Inl e
                | Inr (size_opt, g2) \<Rightarrow>
                    (case random_choice (rotation_options (style_of component)) g2 of
                       Inl e \<Rightarrow> Inl e
                     | Inr (rotation_opt, g3) \<Rightarrow>
                         draw n prm component center size_opt rotation_opt g3))))"
| "draw n prm (Circle i st) center sz rotation g = Circle_draw st center sz rotation g"
| "draw n prm (Rect i st) center sz rotation g = Rect_draw st center sz rotation g"
| "draw n prm (Ellipse i st) center sz rotation g = Ellipse_draw st center sz rotation g"
| "draw n prm (Polygon i st vc ce) center sz rotation g =
     (let points_list = polygon_points vc center sz
      in case random_choice (fill_options st) g of
           Inl e \<Rightarrow> Inl e
         | Inr (fill, g1) \<Rightarrow>
             (case random_choice (opacity_options st) g1 of
                Inl e \<Rightarrow> Inl e
              | Inr (opacity, g2) \<Rightarrow>
                  (let polygon = PolygonNode points_list fill opacity
                                   (rotation_transform rotation center)
                   in case ce of
                        None \<Rightarrow> Inr (polygon, g2)
                      | Some center_element \<Rightarrow>
                          (case draw_component n prm center center_element g2 of
                             Inl e \<Rightarrow> Inl e
                           | Inr (center_component, g3) \<Rightarrow>
                               Inr (Group [polygon, center_component], g3)))))"
| "draw n prm (PolygonGroup i st vc ve ce) center sz rotation g =
     (let points_list = polygon_points vc center sz
      in case random_choice (fill_options st) g of
           Inl e \<Rightarrow> Inl e
         | Inr (fill, g1) \<Rightarrow>
             (case random_choice (opacity_options st) g1 of
                Inl e \<Rightarrow> Inl e
              | Inr (opacity, g2) \<Rightarrow>
                  (let polygon = PolygonNode points_list fill opacity None
                   in case (case ce of
                              None \<Rightarrow> Inr ([], g2)
                            | Some center_element \<Rightarrow>
                                (case draw_component n prm center center_element g2 of
                                   Inl e \<Rightarrow> Inl e
                                 | Inr (center_component, g3) \<Rightarrow>
                                     Inr ([center_component], g3))) of
                        Inl e \<Rightarrow> Inl e
                      | Inr (centers, g3) \<Rightarrow>
                          (if ve = Some ''circle'' then
                             (case draw_vertex_circles n prm points_list [0..<nat vc] g3 of
                                Inl e \<Rightarrow> Inl e
                              | Inr (children, g4) \<Rightarrow>
                                  Inr (Group (polygon # centers @ children), g4))
                           else if ve = Some ''polygon'' then
                             (case draw_child_polygons st vc points_list [0..<nat vc]
                                     sz rotation g3 of
                                Inl e \<Rightarrow> Inl e
                              | Inr (children, g4) \<Rightarrow>
                                  Inr (Group (polygon # centers @ children), g4))
                           else Inr (Group (polygon # centers), g3)))))"
| "draw_vertex_circles n prm points_list [] g = Inr ([], g)"
| "draw_vertex_circles n prm points_list (i # is) g =
     (case draw_component n prm (points_list ! i) ''circle'' g of
        Inl e \<Rightarrow> Inl e
      | Inr (child_component, g1) \<Rightarrow>
          (case draw_vertex_circles n prm points_list is g1 of
             Inl e \<Rightarrow> Inl e
           | Inr (children, g2) \<Rightarrow> Inr (child_component # children, g2)))"
  by pat_completeness auto

termination
  by (relation "measures
        [\<lambda>x. case x of Inl (n, _) \<Rightarrow> n | Inr (Inl (n, _)) \<Rightarrow> n | Inr (Inr (n, _)) \<Rightarrow> n,
         \<lambda>x. case x of Inl _ \<Rightarrow> 0 | Inr (Inl _) \<Rightarrow> 2 | Inr (Inr _) \<Rightarrow> 1,
         \<lambda>x. case x of Inl _ \<Rightarrow> 0 | Inr (Inl _) \<Rightarrow> 0
                | Inr (Inr (n, prm, points_list, is, g)) \<Rightarrow> length is]")
     auto

section \<open>The top-level driver\<close>

text \<open>
  The loop of \<open>main\<close> over \<open>component_to_draw\<close>. \<open>dwg\<close> is the list of elements added to
  the drawing so far; when an exception ends the run, the result holds it together with
  the elements that had been added by then.
\<close>

fun main_loop ::
  "nat \<Rightarrow> params \<Rightarrow> (string \<rightharpoonup> component option) \<Rightarrow> point \<Rightarrow> string list \<Rightarrow> node list \<Rightarrow> rng
     \<Rightarrow> (py_error \<times> node list) + (node list \<times> rng)" where
  "main_loop n prm components center_option [] dwg g = Inr (dwg, g)"
| "main_loop n prm components center_option (component_id # rest) dwg g =
     (case components component_id of
        None \<Rightarrow> Inl (KeyError, dwg)
      | Some None \<Rightarrow> Inl (AttributeError, dwg)
      | Some (Some component) \<Rightarrow>
          (case random_choice (size_options (style_of component)) g of
             Inl e \<Rightarrow> Inl (e, dwg)
           | Inr (size_opt, g1) \<Rightarrow>
               (case random_choice (rotation_options (style_of component)) g1 of
                  Inl e \<Rightarrow> Inl (e, dwg)
                | Inr (rotation_opt, g2) \<Rightarrow>
                    (case draw n prm component center_option size_opt rotation_opt g2 of
                       Inl e \<Rightarrow> Inl (e, dwg)
                     | Inr (element, g3) \<Rightarrow>
                         main_loop n prm components center_option rest
                           (dwg @ [element]) g3))))"

definition main :: "nat \<Rightarrow> params \<Rightarrow> rng \<Rightarrow> (py_error \<times> node list) + (node list \<times> rng)" where
  "main n prm g =
     (case parse_components prm g of
        Inl e \<Rightarrow> Inl (e, [])
      | Inr (components, g1) \<Rightarrow>
          (let canvas_width = fst (canvas_size prm); canvas_height = snd (canvas_size prm)
           in main_loop n prm components
                (of_int canvas_width / 2, of_int canvas_height / 2)
                (component_to_draw prm) [] g1))"

section \<open>Observations on nodes\<close>

text \<open>
  The rotation transform a node carries, the primitive a draw method built itself (the
  first child when it returned a group), and the kind of a node.
\<close>

fun transform_of :: "node \<Rightarrow> (real \<times> point) option" where
  "transform_of (CircleNode c r f opac) = None"
| "transform_of (RectNode ins s f opac t) = t"
| "transform_of (EllipseNode c r f opac t) = t"
| "transform_of (PolygonNode pts f opac t) = t"
| "transform_of (Group ns) = None"

fun primitive_of :: "node \<Rightarrow> node" where
  "primitive_of (Group (x # xs)) = x"
| "primitive_of nd = nd"

fun node_kind :: "node \<Rightarrow> string" where
  "node_kind (CircleNode c r f opac) = ''circle''"
| "node_kind (RectNode ins s f opac t) = ''rect''"
| "node_kind (EllipseNode c r f opac t) = ''ellipse''"
| "node_kind (PolygonNode pts f opac t) = ''polygon''"
| "node_kind (Group ns) = ''g''"

fun children_of :: "node \<Rightarrow> node list" where
  "children_of (Group ns) = ns"
| "children_of nd = []"

section \<open>The reference graph of a configuration\<close>

text \<open>
  The ids an entry of \<open>element_defs\<close> can make its component draw: the ids among its
  \<open>center_elements\<close> and, for a PolygonGroup that may choose \<open>"circle"\<close>, the id \<open>"circle"\<close>;
  and the ids a built component does draw.
\<close>

definition references :: "element_def \<Rightarrow> string list" where
  "references d =
     (if etype d = ''Polygon'' then [c. Some c \<leftarrow> center_elements d]
      else if etype d = ''PolygonGroup'' then
        [c. Some c \<leftarrow> center_elements d]
        @ (if Some ''circle'' \<in> set (vertex_elements d) then [''circle''] else [])
      else [])"

fun component_references :: "component \<Rightarrow> string set" where
  "component_references (Polygon i st vc ce) = set_option ce"
| "component_references (PolygonGroup i st vc ve ce) =
     set_option ce \<union> (if ve = Some ''circle'' then {''circle''} else {})"
| "component_references c = {}"

text \<open>
  The id of the first \<open>draw_component\<close> call a draw method makes once it has chosen fill
  and opacity: the center element when there is one, else the first vertex circle.
\<close>

fun first_nested_call :: "component \<Rightarrow> string option" where
  "first_nested_call (Polygon i st vc ce) = ce"
| "first_nested_call (PolygonGroup i st vc ve ce) =
     (case ce of
        Some center_element \<Rightarrow> Some center_element
      | None \<Rightarrow> if ve = Some ''circle'' \<and> 0 < vc then Some ''circle'' else None)"
| "first_nested_call c = None"

section \<open>Example configurations\<close>

definition rng0 :: rng where
  "rng0 = \<lparr>tape = (\<lambda>i. i), pos = 0\<rparr>"

definition style_red :: style where
  "style_red = \<lparr>fill_options = [''red''], opacity_options = [1], size_options = [100],
     rotation_options = [0]\<rparr>"

definition params_empty :: params where
  "params_empty = \<lparr>canvas_size = (200, 200), component_to_draw = [], element_defs = []\<rparr>"

definition circle_def :: "string \<Rightarrow> style \<Rightarrow> element_def" where
  "circle_def i st = \<lparr>etype = ''Circle'', eid = i, estyle = st, vertex_count = [],
     center_elements = [], vertex_count_options = [], vertex_elements = []\<rparr>"

definition params_dot :: params where
  "params_dot = \<lparr>canvas_size = (200, 200), component_to_draw = [''tri''],
     element_defs = [(''circle'', circle_def ''circle'' style_red)]\<rparr>"

definition style_no_rotation :: style where
  "style_no_rotation = \<lparr>fill_options = [''red''], opacity_options = [1], size_options = [100],
     rotation_options = []\<rparr>"

definition params_no_rotation :: params where
  "params_no_rotation = \<lparr>canvas_size = (200, 200), component_to_draw = [''circle''],
     element_defs = [(''circle'', circle_def ''circle'' style_no_rotation)]\<rparr>"

definition polygon_def :: "string \<Rightarrow> style \<Rightarrow> int list \<Rightarrow> string option list \<Rightarrow> element_def" where
  "polygon_def i st vcs ces = \<lparr>etype = ''Polygon'', eid = i, estyle = st, vertex_count = vcs,
     center_elements = ces, vertex_count_options = [], vertex_elements = []\<rparr>"

definition params_scene :: params where
  "params_scene = \<lparr>canvas_size = (200, 200), component_to_draw = [''tri'', ''circle''],
     element_defs = [(''tri'', polygon_def ''tri'' style_red [3] [None]),
                     (''circle'', circle_def ''circle'' style_red)]\<rparr>"

definition style_rgb :: style where
  "style_rgb = \<lparr>fill_options = [''red'', ''green'', ''blue''], opacity_options = [1],
     size_options = [40], rotation_options = [30]\<rparr>"

definition style_no_fill :: style where
  "style_no_fill = \<lparr>fill_options = [], opacity_options = [1], size_options = [100],
     rotation_options = [0]\<rparr>"

definition params_bad :: params where
  "params_bad = \<lparr>canvas_size = (200, 200), component_to_draw = [''circle'', ''bad''],
     element_defs = [(''circle'', circle_def ''circle'' style_red),
                     (''bad'', circle_def ''bad'' style_no_fill)]\<rparr>"

definition params_cyclic :: params where
  "params_cyclic = \<lparr>canvas_size = (200, 200), component_to_draw = [''A''],
     element_defs = [(''A'', polygon_def ''A'' style_red [3] [Some ''A''])]\<rparr>"

definition params_nested :: params where
  "params_nested = \<lparr>canvas_size = (200, 200), component_to_draw = [''tri''],
     element_defs = [(''tri'', polygon_def ''tri'' style_red [3] [Some ''circle'']),
                     (''circle'', circle_def ''circle'' style_red)]\<rparr>"

definition rank_nested :: "string \<Rightarrow> nat" where
  "rank_nested c = (if c = ''tri'' then 1 else 0)"

definition polygon_3_or_5 :: element_def where
  "polygon_3_or_5 = polygon_def ''p'' style_rgb [3, 5] [None]"

definition params_two_cycle :: params where
  "params_two_cycle = \<lparr>canvas_size = (200, 200), component_to_draw = [''A''],
     element_defs = [(''A'', polygon_def ''A'' style_red [3] [Some ''B'']),
                     (''B'', polygon_def ''B'' style_red [4] [Some ''A''])]\<rparr>"

definition params_nested_bad :: params where
  "params_nested_bad = \<lparr>canvas_size = (200, 200), component_to_draw = [''circle'', ''tri''],
     element_defs = [(''circle'', circle_def ''circle'' style_red),
                     (''tri'', polygon_def ''tri'' style_red [3] [Some ''bad'']),
                     (''bad'', circle_def ''bad'' style_no_fill)]\<rparr>"

section \<open>Properties\<close>

subsection \<open>Style resolution\<close>

lemma random_choice_Inr:
  "random_choice xs g = Inr (x, g') \<longleftrightarrow>
     xs \<noteq> [] \<and> x = xs ! (tape g (pos g) mod length xs) \<and> g' = g\<lparr>pos := Suc (pos g)\<rparr>"
  by (auto simp: random_choice_def)

lemma random_choice_Inl:
  "random_choice xs g = Inl e \<longleftrightarrow> xs = [] \<and> e = IndexError"
  by (auto simp: random_choice_def)

lemma random_choice_in_set: "random_choice xs g = Inr (x, g') \<Longrightarrow> x \<in> set xs"
  by (auto simp: random_choice_def split: if_splits)

subsection \<open>Building the components\<close>

lemma create_component_Polygon:
  assumes "create_component d g0 = Inr (Some c, g1)" and "etype d = ''Polygon''"
  shows "c = Polygon (eid d) (estyle d)
               (vertex_count d ! (tape g0 (pos g0) mod length (vertex_count d)))
               (center_elements d ! (tape g0 (pos g0 + 1) mod length (center_elements d)))"
  using assms by (auto simp: random_choice_Inr split: sum.splits prod.splits)

lemma create_component_PolygonGroup:
  assumes "create_component d g0 = Inr (Some c, g1)" and "etype d = ''PolygonGroup''"
  shows "c = PolygonGroup (eid d) (estyle d)
               (vertex_count_options d ! (tape g0 (pos g0) mod length (vertex_count_options d)))
               (vertex_elements d ! (tape g0 (pos g0 + 1) mod length (vertex_elements d)))
               (center_elements d ! (tape g0 (pos g0 + 2) mod length (center_elements d)))"
  using assms
  by (auto simp: random_choice_Inr numeral_2_eq_2 split: sum.splits prod.splits)

lemma create_component_references:
  assumes "create_component d g = Inr (Some c, g')"
  shows "component_references c \<subseteq> set (references d)"
proof -
  have opt: "set_option ce \<subseteq> {c. Some c \<in> set ces}" if "ce \<in> set ces" for ce :: "string option" and ces
    using that by (cases ce) auto
  have concat: "set [c. Some c \<leftarrow> ces] = {c. Some c \<in> set ces}" for ces :: "string option list"
    by (auto split: option.splits)
  from assms show ?thesis
    by (auto simp: references_def concat dest!: random_choice_in_set
        split: if_splits sum.splits prod.splits)
qed

lemma create_component_error: "create_component d g = Inl e \<Longrightarrow> e = IndexError"
  by (auto simp: random_choice_Inl split: if_splits sum.splits prod.splits)

lemma build_components_error: "build_components defs components g = Inl e \<Longrightarrow> e = IndexError"
  by (induction defs components g rule: build_components.induct)
    (auto simp del: create_component.simps split: sum.splits prod.splits
       dest: create_component_error)

lemma build_components_lookup:
  assumes "build_components defs components0 g = Inr (components, g')"
    and "components cid = Some (Some c)"
  shows "components0 cid = Some (Some c)
       \<or> (\<exists>d g1 g2. (cid, d) \<in> set defs \<and> create_component d g1 = Inr (Some c, g2))"
  using assms
proof (induction defs components0 g rule: build_components.induct)
  case (1 components g)
  then show ?case by simp
next
  case (2 key val rest components0 g)
  from "2.prems"(1) obtain c0 g1 where
    cr: "create_component val g = Inr (c0, g1)"
    and rec: "build_components rest (components0(key \<mapsto> c0)) g1 = Inr (components, g')"
    by (auto simp del: create_component.simps split: sum.splits prod.splits)
  from "2.IH" [OF cr refl rec "2.prems"(2)]
  consider "(components0(key \<mapsto> c0)) cid = Some (Some c)"
    | "\<exists>d g1 g2. (cid, d) \<in> set rest \<and> create_component d g1 = Inr (Some c, g2)"
    by blast
  then show ?case
  proof cases
    case 1
    show ?thesis
    proof (cases "cid = key")
      case True
      with 1 have "c0 = Some c" by simp
      with cr True have "(cid, val) \<in> set ((key, val) # rest)"
        "create_component val g = Inr (Some c, g1)"
        by simp_all
      then show ?thesis by blast
    next
      case False
      with 1 show ?thesis by simp
    qed
  next
    case 2
    then obtain d ga gb where "(cid, d) \<in> set rest" "create_component d ga = Inr (Some c, gb)"
      by blast
    then have "(cid, d) \<in> set ((key, val) # rest)" by simp
    with \<open>create_component d ga = Inr (Some c, gb)\<close> show ?thesis by blast
  qed
qed

lemma parse_components_lookup:
  assumes "parse_components prm g = Inr (components, g')"
    and "components cid = Some (Some c)"
  shows "\<exists>d. (cid, d) \<in> set (element_defs prm) \<and> component_references c \<subseteq> set (references d)"
proof -
  from build_components_lookup [OF assms(1) [unfolded parse_components_def] assms(2)]
  obtain d g1 g2 where "(cid, d) \<in> set (element_defs prm)"
    "create_component d g1 = Inr (Some c, g2)"
    by auto
  with create_component_references [OF this(2)] show ?thesis by blast
qed

subsection \<open>The vertex loop\<close>

lemma length_rotate_loop: "length (rotate_loop k angle p) = k"
  by (induction k arbitrary: p) (simp_all add: Let_def)

lemma length_polygon_points: "length (polygon_points vc center sz) = Suc (nat vc)"
  by (simp add: polygon_points_def Let_def length_rotate_loop)


subsection \<open>What a successful draw returns\<close>

lemma draw_component_InrD:
  assumes "draw_component n prm center cid g = Inr (nd, g')"
  shows "\<exists>m components g1 component size_opt g2 rotation_opt g3.
           n = Suc m
         \<and> parse_components prm g = Inr (components, g1)
         \<and> components cid = Some (Some component)
         \<and> random_choice (size_options (style_of component)) g1 = Inr (size_opt, g2)
         \<and> random_choice (rotation_options (style_of component)) g2 = Inr (rotation_opt, g3)
         \<and> draw m prm component center size_opt rotation_opt g3 = Inr (nd, g')"
proof -
  from assms obtain m where n: "n = Suc m" by (cases n) auto
  from assms [unfolded n] show ?thesis
    unfolding n by (auto split: sum.splits prod.splits option.splits)
qed

lemma draw_vertex_circles_Inr:
  assumes "draw_vertex_circles n prm points_list ixs g = Inr (children, g')"
  shows "\<exists>gs. length children = length ixs
           \<and> length gs = Suc (length ixs) \<and> gs ! 0 = g \<and> gs ! length ixs = g'
           \<and> (\<forall>k<length ixs.
                  draw_component n prm (points_list ! (ixs ! k)) ''circle'' (gs ! k)
                    = Inr (children ! k, gs ! Suc k))"
  using assms
proof (induction ixs arbitrary: children g)
  case Nil
  then show ?case by (auto intro: exI [of _ "[g]"])
next
  case (Cons i rest)
  from Cons.prems obtain child g1 others where
    d: "draw_component n prm (points_list ! i) ''circle'' g = Inr (child, g1)"
    and rec: "draw_vertex_circles n prm points_list rest g1 = Inr (others, g')"
    and ch: "children = child # others"
    by (auto split: sum.splits prod.splits)
  from Cons.IH [OF rec] obtain gs where
    ih: "length others = length rest" "length gs = Suc (length rest)" "gs ! 0 = g1"
      "gs ! length rest = g'"
      "\<forall>k<length rest. draw_component n prm (points_list ! (rest ! k)) ''circle'' (gs ! k)
                    = Inr (others ! k, gs ! Suc k)"
    by blast
  let ?gs = "g # gs"
  have step: "draw_component n prm (points_list ! ((i # rest) ! k)) ''circle'' (?gs ! k)
                    = Inr (children ! k, ?gs ! Suc k)"
    if k: "k < length (i # rest)" for k
  proof (cases k)
    case 0
    with d ih(3) ch show ?thesis by simp
  next
    case (Suc j)
    with k have "j < length rest" by simp
    with ih(5) Suc ch show ?thesis by simp
  qed
  have "length children = length (i # rest)" "length ?gs = Suc (length (i # rest))"
    "?gs ! 0 = g" "?gs ! length (i # rest) = g'"
    using ih ch by simp_all
  with step show ?case by blast
qed

lemma draw_child_polygons_Inr:
  assumes "draw_child_polygons st vc points_list ixs sz rotation g = Inr (children, g')"
  shows "length children = length ixs \<and> g' = g\<lparr>pos := pos g + 2 * length ixs\<rparr>
       \<and> (\<forall>k<length ixs. children ! k =
             PolygonNode (polygon_points vc (points_list ! (ixs ! k)) sz)
               (fill_options st ! (tape g (pos g + 2 * k) mod length (fill_options st)))
               (opacity_options st
                  ! (tape g (pos g + 2 * k + 1) mod length (opacity_options st)))
               (rotation_transform rotation (points_list ! (ixs ! k))))"
  using assms
proof (induction ixs arbitrary: children g)
  case Nil
  then show ?case by simp
next
  case (Cons i rest)
  from Cons.prems obtain child g1 others where
    d: "draw_child_polygon st vc (points_list ! i) sz rotation g = Inr (child, g1)"
    and rec: "draw_child_polygons st vc points_list rest sz rotation g1 = Inr (others, g')"
    and ch: "children = child # others"
    by (auto split: sum.splits prod.splits)
  from d have child: "child = PolygonNode (polygon_points vc (points_list ! i) sz)
               (fill_options st ! (tape g (pos g) mod length (fill_options st)))
               (opacity_options st ! (tape g (Suc (pos g)) mod length (opacity_options st)))
               (rotation_transform rotation (points_list ! i))"
    and g1: "g1 = g\<lparr>pos := pos g + 2\<rparr>"
    by (auto simp: draw_child_polygon_def Let_def random_choice_Inr split: sum.splits prod.splits)
  note ih = Cons.IH [OF rec]
  have step: "children ! k =
             PolygonNode (polygon_points vc (points_list ! ((i # rest) ! k)) sz)
               (fill_options st ! (tape g (pos g + 2 * k) mod length (fill_options st)))
               (opacity_options st
                  ! (tape g (pos g + 2 * k + 1) mod length (opacity_options st)))
               (rotation_transform rotation (points_list ! ((i # rest) ! k)))"
    if k: "k < length (i # rest)" for k
  proof (cases k)
    case 0
    with child ch show ?thesis by simp
  next
    case (Suc j)
    with k have "j < length rest" by simp
    with ih Suc ch g1 show ?thesis by (simp add: add.commute add.left_commute)
  qed
  from ih ch g1 have "length children = length (i # rest)"
    "g' = g\<lparr>pos := pos g + 2 * length (i # rest)\<rparr>"
    by simp_all
  with step show ?case by blast
qed

lemma Polygon_draw_shape:
  assumes "draw n prm (Polygon i st vc ce) center sz rotation g = Inr (nd, g')"
  shows "primitive_of nd =
           PolygonNode (polygon_points vc center sz)
             (fill_options st ! (tape g (pos g) mod length (fill_options st)))
             (opacity_options st ! (tape g (pos g + 1) mod length (opacity_options st)))
             (rotation_transform rotation center)
       \<and> length (children_of nd) = (if ce = None then 0 else 2)"
  using assms
  by (auto simp: Let_def random_choice_Inr split: sum.splits prod.splits option.splits)

lemma PolygonGroup_draw_InrD:
  assumes "draw n prm (PolygonGroup i st vc ve ce) center sz rotation g = Inr (nd, g')"
  shows "\<exists>centers g3 children.
           nd = Group (PolygonNode (polygon_points vc center sz)
                         (fill_options st ! (tape g (pos g) mod length (fill_options st)))
                         (opacity_options st
                            ! (tape g (pos g + 1) mod length (opacity_options st)))
                         None
                       # centers @ children)
         \<and> (case ce of
              None \<Rightarrow> centers = [] \<and> g3 = g\<lparr>pos := pos g + 2\<rparr>
            | Some center_element \<Rightarrow>
                (\<exists>center_component. centers = [center_component]
                   \<and> draw_component n prm center center_element (g\<lparr>pos := pos g + 2\<rparr>)
                       = Inr (center_component, g3)))
         \<and> (if ve = Some ''circle'' then
               draw_vertex_circles n prm (polygon_points vc center sz) [0..<nat vc] g3
                 = Inr (children, g')
             else if ve = Some ''polygon'' then
               draw_child_polygons st vc (polygon_points vc center sz) [0..<nat vc]
                 sz rotation g3 = Inr (children, g')
             else children = [] \<and> g' = g3)"
proof (cases ce)
  case None
  with assms show ?thesis
    by (cases "ve = Some ''circle''"; cases "ve = Some ''polygon''")
      (auto simp: Let_def random_choice_Inr split: sum.splits prod.splits)
next
  case (Some center_element)
  with assms show ?thesis
    by (cases "ve = Some ''circle''"; cases "ve = Some ''polygon''")
      (auto simp: Let_def random_choice_Inr split: sum.splits prod.splits)
qed

lemma PolygonGroup_draw_shape:
  assumes "draw n prm (PolygonGroup i st vc ve ce) center sz rotation g = Inr (nd, g')"
  shows "primitive_of nd =
           PolygonNode (polygon_points vc center sz)
             (fill_options st ! (tape g (pos g) mod length (fill_options st)))
             (opacity_options st ! (tape g (pos g + 1) mod length (opacity_options st)))
             None
       \<and> length (children_of nd) =
           1 + (if ce = None then 0 else 1)
             + (if ve = Some ''circle'' \<or> ve = Some ''polygon'' then nat vc else 0)"
proof -
  from PolygonGroup_draw_InrD [OF assms] obtain centers g3 children where
    nd: "nd = Group (PolygonNode (polygon_points vc center sz)
                         (fill_options st ! (tape g (pos g) mod length (fill_options st)))
                         (opacity_options st
                            ! (tape g (pos g + 1) mod length (opacity_options st)))
                         None
                       # centers @ children)"
    and c: "case ce of
              None \<Rightarrow> centers = [] \<and> g3 = g\<lparr>pos := pos g + 2\<rparr>
            | Some center_element \<Rightarrow>
                (\<exists>center_component. centers = [center_component]
                   \<and> draw_component n prm center center_element (g\<lparr>pos := pos g + 2\<rparr>)
                       = Inr (center_component, g3))"
    and v: "if ve = Some ''circle'' then
               draw_vertex_circles n prm (polygon_points vc center sz) [0..<nat vc] g3
                 = Inr (children, g')
             else if ve = Some ''polygon'' then
               draw_child_polygons st vc (polygon_points vc center sz) [0..<nat vc]
                 sz rotation g3 = Inr (children, g')
             else children = [] \<and> g' = g3"
    by blast
  from c have lc: "length centers = (if ce = None then 0 else 1)"
    by (auto split: option.splits)
  have "length children = (if ve = Some ''circle'' \<or> ve = Some ''polygon'' then nat vc else 0)"
  proof (cases "ve = Some ''circle''")
    case True
    with v draw_vertex_circles_Inr show ?thesis by fastforce
  next
    case False
    show ?thesis
    proof (cases "ve = Some ''polygon''")
      case True
      with v False draw_child_polygons_Inr show ?thesis by fastforce
    next
      case nope: False
      with v False show ?thesis by simp
    qed
  qed
  with nd lc show ?thesis by simp
qed

lemma main_loop_Inr:
  assumes "main_loop n prm components center ids dwg g = Inr (scene, g')"
  shows "\<exists>new gs. scene = dwg @ new \<and> length new = length ids
           \<and> length gs = Suc (length ids) \<and> gs ! 0 = g \<and> gs ! length ids = g'
           \<and> (\<forall>k<length ids. \<exists>component size_opt g1 rotation_opt g2.
                  components (ids ! k) = Some (Some component)
                \<and> random_choice (size_options (style_of component)) (gs ! k) = Inr (size_opt, g1)
                \<and> random_choice (rotation_options (style_of component)) g1
                    = Inr (rotation_opt, g2)
                \<and> draw n prm component center size_opt rotation_opt g2
                    = Inr (new ! k, gs ! Suc k))"
  using assms
proof (induction ids arbitrary: dwg g)
  case Nil
  then show ?case by (auto intro: exI [of _ "[g]"])
next
  case (Cons cid rest)
  from Cons.prems obtain component size_opt g1 rotation_opt g2 element g3 where
    c: "components cid = Some (Some component)"
    and s: "random_choice (size_options (style_of component)) g = Inr (size_opt, g1)"
    and r: "random_choice (rotation_options (style_of component)) g1 = Inr (rotation_opt, g2)"
    and d: "draw n prm component center size_opt rotation_opt g2 = Inr (element, g3)"
    and rec: "main_loop n prm components center rest (dwg @ [element]) g3 = Inr (scene, g')"
    by (auto split: sum.splits prod.splits option.splits)
  from Cons.IH [OF rec] obtain new gs where
    ih: "scene = (dwg @ [element]) @ new" "length new = length rest"
      "length gs = Suc (length rest)" "gs ! 0 = g3" "gs ! length rest = g'"
      "\<forall>k<length rest. \<exists>component size_opt g1 rotation_opt g2.
          components (rest ! k) = Some (Some component)
        \<and> random_choice (size_options (style_of component)) (gs ! k) = Inr (size_opt, g1)
        \<and> random_choice (rotation_options (style_of component)) g1 = Inr (rotation_opt, g2)
        \<and> draw n prm component center size_opt rotation_opt g2 = Inr (new ! k, gs ! Suc k)"
    by blast
  let ?new = "element # new" and ?gs = "g # gs"
  have step: "\<exists>component size_opt g1 rotation_opt g2.
          components ((cid # rest) ! k) = Some (Some component)
        \<and> random_choice (size_options (style_of component)) (?gs ! k) = Inr (size_opt, g1)
        \<and> random_choice (rotation_options (style_of component)) g1 = Inr (rotation_opt, g2)
        \<and> draw n prm component center size_opt rotation_opt g2 = Inr (?new ! k, ?gs ! Suc k)"
    if k: "k < length (cid # rest)" for k
  proof (cases k)
    case 0
    with c s r d ih(4) show ?thesis by auto
  next
    case (Suc j)
    with k have "j < length rest" by simp
    with ih(6) Suc show ?thesis by simp
  qed
  have "scene = dwg @ ?new" "length ?new = length (cid # rest)"
    "length ?gs = Suc (length (cid # rest))" "?gs ! 0 = g" "?gs ! length (cid # rest) = g'"
    using ih by simp_all
  with step show ?case by blast
qed

lemma main_loop_append:
  "main_loop n prm components center (pre @ post) dwg g =
     (case main_loop n prm components center pre dwg g of
        Inl e \<Rightarrow> Inl e
      | Inr (dwg1, g1) \<Rightarrow> main_loop n prm components center post dwg1 g1)"
  by (induction pre arbitrary: dwg g) (auto split: sum.splits prod.splits option.splits)

lemma draw_returns_transform:
  assumes "draw n prm c center sz rotation g = Inr (nd, g')"
  shows "transform_of (primitive_of nd) =
           (case c of
              Circle i st \<Rightarrow> None
            | Rect i st \<Rightarrow> (if rotation \<noteq> 0 then Some (rotation, center) else None)
            | Ellipse i st \<Rightarrow> (if rotation \<noteq> 0 then Some (rotation, center) else None)
            | Polygon i st vc ce \<Rightarrow> (if rotation \<noteq> 0 then Some (rotation, center) else None)
            | PolygonGroup i st vc ve ce \<Rightarrow> None)
         \<and> node_kind (primitive_of nd) =
           (case c of
              Circle i st \<Rightarrow> ''circle''
            | Rect i st \<Rightarrow> ''rect''
            | Ellipse i st \<Rightarrow> ''ellipse''
            | Polygon i st vc ce \<Rightarrow> ''polygon''
            | PolygonGroup i st vc ve ce \<Rightarrow> ''polygon'')"
proof (cases c)
  case (Circle i st)
  with assms show ?thesis
    by (auto simp: Circle_draw_def split: sum.splits prod.splits)
next
  case (Rect i st)
  with assms show ?thesis
    by (auto simp: Rect_draw_def rotation_transform_def split: sum.splits prod.splits)
next
  case (Ellipse i st)
  with assms show ?thesis
    by (auto simp: Ellipse_draw_def rotation_transform_def split: sum.splits prod.splits)
next
  case (Polygon i st vc ce)
  with assms show ?thesis
    by (auto simp: Let_def rotation_transform_def split: sum.splits prod.splits option.splits)
next
  case (PolygonGroup i st vc ve ce)
  with assms show ?thesis
    by (auto simp: Let_def split: sum.splits prod.splits option.splits if_splits)
qed

lemma draw_child_polygons_returns:
  assumes "fill_options st \<noteq> []" and "opacity_options st \<noteq> []"
  shows "\<exists>children g'. draw_child_polygons st vc points_list ixs sz rotation g = Inr (children, g')"
proof (induction ixs arbitrary: g)
  case Nil
  show ?case by simp
next
  case (Cons i rest)
  from assms obtain child g1 where
    c: "draw_child_polygon st vc (points_list ! i) sz rotation g = Inr (child, g1)"
    by (simp add: draw_child_polygon_def Let_def random_choice_def)
  from Cons.IH [of g1] obtain children g2 where
    "draw_child_polygons st vc points_list rest sz rotation g1 = Inr (children, g2)"
    by blast
  with c show ?case by simp
qed

subsection \<open>Where errors come from\<close>

lemma draw_empty_fill_or_opacity:
  assumes "fill_options (style_of c) = [] \<or> opacity_options (style_of c) = []"
  shows "draw n prm c center sz rotation g = Inl IndexError"
  using assms
  by (cases c)
    (auto simp: Circle_draw_def Rect_draw_def Ellipse_draw_def Let_def random_choice_def)

lemma draw_child_polygons_error:
  "draw_child_polygons st vc points_list ixs sz rotation g = Inl e \<Longrightarrow> e = IndexError"
  by (induction ixs arbitrary: g)
    (auto simp: draw_child_polygon_def Let_def random_choice_Inl split: sum.splits prod.splits)

lemma draw_vertex_circles_error:
  "draw_vertex_circles n prm points_list ixs g = Inl e
     \<Longrightarrow> \<exists>k g0. draw_component n prm (points_list ! k) ''circle'' g0 = Inl e"
proof (induction ixs arbitrary: g)
  case Nil
  then show ?case by simp
next
  case (Cons i rest)
  show ?case
  proof (cases "draw_component n prm (points_list ! i) ''circle'' g")
    case (Inl e')
    with Cons.prems have "e' = e" by simp
    with Inl show ?thesis by blast
  next
    case (Inr r)
    then obtain child g1 where
      "draw_component n prm (points_list ! i) ''circle'' g = Inr (child, g1)"
      by (cases r) auto
    with Cons.prems have "draw_vertex_circles n prm points_list rest g1 = Inl e"
      by (auto split: sum.splits prod.splits)
    then show ?thesis by (rule Cons.IH)
  qed
qed

lemma draw_no_recursion_error:
  assumes "\<And>r center g. r \<in> component_references c
             \<Longrightarrow> draw_component n prm center r g \<noteq> Inl RecursionError"
  shows "draw n prm c center sz rotation g \<noteq> Inl RecursionError"
proof (cases c)
  case (Circle i st)
  then show ?thesis
    by (auto simp: Circle_draw_def random_choice_Inl split: sum.splits prod.splits)
next
  case (Rect i st)
  then show ?thesis
    by (auto simp: Rect_draw_def random_choice_Inl split: sum.splits prod.splits)
next
  case (Ellipse i st)
  then show ?thesis
    by (auto simp: Ellipse_draw_def random_choice_Inl split: sum.splits prod.splits)
next
  case (Polygon i st vc ce)
  have ce: "draw_component n prm center r g \<noteq> Inl RecursionError" if "ce = Some r" for r g
    using assms [of r] that Polygon by simp
  show ?thesis
    unfolding Polygon
    using ce
    by (auto simp: Let_def random_choice_Inl split: sum.splits prod.splits option.splits)
next
  case (PolygonGroup i st vc ve ce)
  have ce: "draw_component n prm center r g \<noteq> Inl RecursionError" if "ce = Some r" for r g
    using assms [of r] that PolygonGroup by simp
  have ve: "draw_vertex_circles n prm pts ixs g \<noteq> Inl RecursionError"
    if v: "ve = Some ''circle''" for pts ixs g
  proof
    assume "draw_vertex_circles n prm pts ixs g = Inl RecursionError"
    from draw_vertex_circles_error [OF this] obtain k g0 where
      "draw_component n prm (pts ! k) ''circle'' g0 = Inl RecursionError"
      by blast
    moreover have "''circle'' \<in> component_references c"
      using v PolygonGroup by simp
    ultimately show False
      using assms by blast
  qed
  show ?thesis
    unfolding PolygonGroup
    using ce ve
    by (auto simp: Let_def random_choice_Inl
        split: sum.splits prod.splits option.splits
        dest: draw_child_polygons_error)
qed

lemma ranked_no_recursion_error:
  assumes "\<forall>(key, d) \<in> set (element_defs prm). \<forall>c \<in> set (references d). rank c < rank key"
  shows "rank cid < n \<Longrightarrow> draw_component n prm center cid g \<noteq> Inl RecursionError"
proof (induction n arbitrary: cid center g)
  case 0
  then show ?case by simp
next
  case (Suc n)
  show ?case
  proof (cases "parse_components prm g")
    case (Inl e)
    then have "e = IndexError"
      by (auto simp: parse_components_def dest: build_components_error)
    with Inl show ?thesis by simp
  next
    case (Inr r)
    then obtain components g1 where p: "parse_components prm g = Inr (components, g1)"
      by (cases r) auto
    show ?thesis
    proof (cases "components cid")
      case None
      with p show ?thesis by simp
    next
      case (Some oc)
      show ?thesis
      proof (cases oc)
        case None
        with p Some show ?thesis by simp
      next
        case (Some c)
        with \<open>components cid = Some oc\<close> have l: "components cid = Some (Some c)" by simp
        from parse_components_lookup [OF p l] obtain d where
          d: "(cid, d) \<in> set (element_defs prm)" "component_references c \<subseteq> set (references d)"
          by blast
        have "rank r < n" if "r \<in> component_references c" for r
        proof -
          from that d(2) have "r \<in> set (references d)" by blast
          with assms d(1) have "rank r < rank cid" by blast
          with Suc.prems show ?thesis by simp
        qed
        then have "draw n prm c center sz rotation g \<noteq> Inl RecursionError" for sz rotation g
          by (rule draw_no_recursion_error [OF Suc.IH])
        with p l show ?thesis
          by (auto simp: random_choice_Inl split: sum.splits prod.splits)
      qed
    qed
  qed
qed

lemma main_loop_no_recursion_error:
  assumes "\<And>cid c sz rotation g. cid \<in> set ids \<Longrightarrow> components cid = Some (Some c)
             \<Longrightarrow> draw n prm c center sz rotation g \<noteq> Inl RecursionError"
  shows "main_loop n prm components center ids dwg g \<noteq> Inl (RecursionError, dwg')"
  using assms
proof (induction ids arbitrary: dwg g)
  case Nil
  show ?case by simp
next
  case (Cons cid rest)
  have rest: "main_loop n prm components center rest dwg1 g1 \<noteq> Inl (RecursionError, dwg')"
    for dwg1 g1
  proof (rule Cons.IH)
    fix c0 c sz rotation g0
    assume "c0 \<in> set rest" "components c0 = Some (Some c)"
    then show "draw n prm c center sz rotation g0 \<noteq> Inl RecursionError"
      using Cons.prems [of c0 c] by simp
  qed
  have here: "draw n prm c center sz rotation g \<noteq> Inl RecursionError"
    if "components cid = Some (Some c)" for c sz rotation g
    using Cons.prems [of cid c] that by simp
  show ?case
    using rest here
    by (auto simp: random_choice_Inl split: sum.splits prod.splits option.splits)
qed

lemma draw_vertex_circles_append:
  "draw_vertex_circles n prm points_list (ixs @ rest) g =
     (case draw_vertex_circles n prm points_list ixs g of
        Inl e \<Rightarrow> Inl e
      | Inr (children, g1) \<Rightarrow>
          (case draw_vertex_circles n prm points_list rest g1 of
             Inl e \<Rightarrow> Inl e
           | Inr (others, g2) \<Rightarrow> Inr (children @ others, g2)))"
  by (induction ixs arbitrary: g) (auto split: sum.splits prod.splits)

lemma main_loop_draw_error:
  assumes "main_loop n prm components center pre dwg g = Inr (dwg1, g1)"
    and "components cid = Some (Some c)"
    and "random_choice (size_options (style_of c)) g1 = Inr (size_opt, g2)"
    and "random_choice (rotation_options (style_of c)) g2 = Inr (rotation_opt, g3)"
    and "draw n prm c center size_opt rotation_opt g3 = Inl e"
  shows "main_loop n prm components center (pre @ cid # post) dwg g = Inl (e, dwg1)"
  using assms by (simp add: main_loop_append)

lemma main_loop_empty_option:
  assumes "main_loop n prm components center pre dwg g = Inr (dwg1, g1)"
    and "components cid = Some (Some c)"
    and "fill_options (style_of c) = [] \<or> opacity_options (style_of c) = []
       \<or> size_options (style_of c) = [] \<or> rotation_options (style_of c) = []"
  shows "main_loop n prm components center (pre @ cid # post) dwg g = Inl (IndexError, dwg1)"
proof -
  have "main_loop n prm components center (cid # post) dwg1 g1 = Inl (IndexError, dwg1)"
    using assms(2,3)
    by (auto simp: random_choice_def draw_empty_fill_or_opacity)
  with assms(1) show ?thesis
    by (simp add: main_loop_append)
qed

lemma first_nested_call_error:
  assumes "first_nested_call c = Some y"
    and "fill_options (style_of c) \<noteq> []" and "opacity_options (style_of c) \<noteq> []"
    and "\<And>center g. draw_component n prm center y g = Inl e"
  shows "draw n prm c center sz rotation g = Inl e"
proof (cases c)
  case (Polygon i st vc ce)
  with assms show ?thesis
    by (simp add: Let_def random_choice_def)
next
  case (PolygonGroup i st vc ve ce)
  show ?thesis
  proof (cases ce)
    case (Some center_element)
    with assms PolygonGroup show ?thesis
      by (simp add: Let_def random_choice_def)
  next
    case None
    with assms(1) PolygonGroup have ve: "ve = Some ''circle''" and vc: "0 < vc" and y: "y = ''circle''"
      by (auto split: if_splits)
    from vc have "[0..<nat vc] = 0 # [Suc 0..<nat vc]"
      by (simp add: upt_conv_Cons)
    with assms(2-4) PolygonGroup None ve y show ?thesis
      by (simp add: Let_def random_choice_def)
  qed
qed (use assms in simp_all)

lemma cycle_recurses:
  assumes "\<And>x g0. x \<in> S \<Longrightarrow> \<exists>components g1 c y.
             parse_components prm g0 = Inr (components, g1)
           \<and> components x = Some (Some c)
           \<and> fill_options (style_of c) \<noteq> [] \<and> opacity_options (style_of c) \<noteq> []
           \<and> size_options (style_of c) \<noteq> [] \<and> rotation_options (style_of c) \<noteq> []
           \<and> first_nested_call c = Some y \<and> y \<in> S"
  shows "x \<in> S \<Longrightarrow> draw_component n prm center x g = Inl RecursionError"
proof (induction n arbitrary: x center g)
  case 0
  show ?case by simp
next
  case (Suc n)
  from assms [OF Suc.prems, of g] obtain components g1 c y where
    p: "parse_components prm g = Inr (components, g1)" "components x = Some (Some c)"
    and ne: "fill_options (style_of c) \<noteq> []" "opacity_options (style_of c) \<noteq> []"
      "size_options (style_of c) \<noteq> []" "rotation_options (style_of c) \<noteq> []"
    and y: "first_nested_call c = Some y" "y \<in> S"
    by blast
  have "draw n prm c center sz rotation g0 = Inl RecursionError" for sz rotation g0
    by (rule first_nested_call_error [OF y(1) ne(1,2)]) (rule Suc.IH [OF y(2)])
  with p ne show ?case
    by (simp add: random_choice_def)
qed

subsection \<open>The example configurations, evaluated\<close>

lemma parse_components_params_dot:
  "parse_components params_dot g = Inr ([''circle'' \<mapsto> Some (Circle ''circle'' style_red)], g)"
  by (simp add: parse_components_def params_dot_def circle_def_def)

lemma upt_4: "[0..<4] = [0, 1, 2, 3]" and upt_3: "[0..<3] = [0, 1, 2]"
  by (simp_all add: upt_rec)

lemma main_params_scene:
  "main 0 params_scene rng0
     = Inr ([PolygonNode (polygon_points 3 (100, 100) 100) ''red'' 1 None,
             CircleNode (100, 100) 50 ''red'' 1], rng0\<lparr>pos := 10\<rparr>)"
  by (simp add: main_def params_scene_def parse_components_def polygon_def_def circle_def_def
      random_choice_def rng0_def style_red_def Let_def rotation_transform_def Circle_draw_def)

lemma group_circle_draw:
  "draw 1 params_dot (PolygonGroup ''pg'' style_red 4 (Some ''circle'') None) (50, 50) 40 0 rng0
     = Inr (Group [PolygonNode (polygon_points 4 (50, 50) 40) ''red'' 1 None,
                   CircleNode (polygon_points 4 (50, 50) 40 ! 0) 50 ''red'' 1,
                   CircleNode (polygon_points 4 (50, 50) 40 ! 1) 50 ''red'' 1,
                   CircleNode (polygon_points 4 (50, 50) 40 ! 2) 50 ''red'' 1,
                   CircleNode (polygon_points 4 (50, 50) 40 ! 3) 50 ''red'' 1],
            rng0\<lparr>pos := 18\<rparr>)"
  by (simp add: upt_4 Let_def random_choice_def rng0_def style_red_def
      parse_components_params_dot Circle_draw_def)

lemma group_polygon_draw:
  "draw 0 params_empty (PolygonGroup ''pg'' style_rgb 3 (Some ''polygon'') None) (50, 50) 40 30 rng0
     = Inr (Group [PolygonNode (polygon_points 3 (50, 50) 40) ''red'' 1 None,
                   PolygonNode (polygon_points 3 (polygon_points 3 (50, 50) 40 ! 0) 40) ''blue'' 1
                     (Some (30, polygon_points 3 (50, 50) 40 ! 0)),
                   PolygonNode (polygon_points 3 (polygon_points 3 (50, 50) 40 ! 1) 40) ''green'' 1
                     (Some (30, polygon_points 3 (50, 50) 40 ! 1)),
                   PolygonNode (polygon_points 3 (polygon_points 3 (50, 50) 40 ! 2) 40) ''red'' 1
                     (Some (30, polygon_points 3 (50, 50) 40 ! 2))],
            rng0\<lparr>pos := 8\<rparr>)"
  by (simp add: upt_3 Let_def random_choice_def rng0_def style_rgb_def
      draw_child_polygon_def rotation_transform_def)

lemma params_cyclic_parse:
  "parse_components params_cyclic g
     = Inr ([''A'' \<mapsto> Some (Polygon ''A'' style_red 3 (Some ''A''))], g\<lparr>pos := Suc (Suc (pos g))\<rparr>)"
  by (simp add: parse_components_def params_cyclic_def polygon_def_def random_choice_def)

lemma params_cyclic_recurses:
  "draw_component n params_cyclic center ''A'' g = Inl RecursionError"
proof (rule cycle_recurses [of "{''A''}"])
  fix x g0
  assume "x \<in> {''A''}"
  then show "\<exists>components g1 c y.
             parse_components params_cyclic g0 = Inr (components, g1)
           \<and> components x = Some (Some c)
           \<and> fill_options (style_of c) \<noteq> [] \<and> opacity_options (style_of c) \<noteq> []
           \<and> size_options (style_of c) \<noteq> [] \<and> rotation_options (style_of c) \<noteq> []
           \<and> first_nested_call c = Some y \<and> y \<in> {''A''}"
    by (simp add: params_cyclic_parse style_red_def)
qed simp

lemma params_cyclic_fields:
  "component_to_draw params_cyclic = [''A'']" "canvas_size params_cyclic = (200, 200)"
  by (simp_all add: params_cyclic_def)

lemma params_two_cycle_parse:
  "parse_components params_two_cycle g
     = Inr ([''A'' \<mapsto> Some (Polygon ''A'' style_red 3 (Some ''B'')),
             ''B'' \<mapsto> Some (Polygon ''B'' style_red 4 (Some ''A''))],
            g\<lparr>pos := Suc (Suc (Suc (Suc (pos g))))\<rparr>)"
  by (simp add: parse_components_def params_two_cycle_def polygon_def_def random_choice_def)

lemma params_nested_bad_parse:
  "parse_components params_nested_bad g
     = Inr ([''circle'' \<mapsto> Some (Circle ''circle'' style_red),
             ''tri'' \<mapsto> Some (Polygon ''tri'' style_red 3 (Some ''bad'')),
             ''bad'' \<mapsto> Some (Circle ''bad'' style_no_fill)],
            g\<lparr>pos := Suc (Suc (pos g))\<rparr>)"
  by (simp add: parse_components_def params_nested_bad_def polygon_def_def circle_def_def
      random_choice_def)

lemma params_nested_bad_fields:
  "component_to_draw params_nested_bad = [''circle'', ''tri'']"
  "canvas_size params_nested_bad = (200, 200)"
  by (simp_all add: params_nested_bad_def)

subsection \<open>Rounding to doubles\<close>

lemma round_half_even_eq:
  assumes "of_int k - 1 / 2 < v" and "v < of_int k + 1 / 2"
  shows "round_half_even v = k"
proof (cases "of_int k \<le> v")
  case True
  with assms have f: "\<lfloor>v\<rfloor> = k" by linarith
  with assms show ?thesis by (simp add: round_half_even_def Let_def)
next
  case False
  with assms have f: "\<lfloor>v\<rfloor> = k - 1" by linarith
  with assms False show ?thesis by (simp add: round_half_even_def Let_def)
qed


lemma round_half_even_of_int [simp]: "round_half_even (of_int m) = m"
  by (rule round_half_even_eq) simp_all





lemma rd_of_int:
  assumes "\<bar>m\<bar> < 2 ^ 53"
  shows "rd (of_int m) = of_int m"
proof (cases "m = 0")
  case True
  then show ?thesis by (simp add: rd_def)
next
  case False
  define x :: real where "x = of_int m"
  define e where "e = \<lfloor>log 2 \<bar>x\<bar>\<rfloor>"
  from False have x0: "x \<noteq> 0" and pos: "0 < \<bar>x\<bar>" by (simp_all add: x_def)
  from assms have "\<bar>x\<bar> < 2 ^ 53"
    unfolding x_def by (metis of_int_abs of_int_less_numeral_power_cancel_iff)
  then have "log 2 \<bar>x\<bar> < 53"
    using pos by (simp add: log_less_iff)
  then have e: "e \<le> 52" unfolding e_def by linarith
  define k where "k = nat (52 - e)"
  have "of_int e - 52 = - real k" using e by (simp add: k_def)
  then have u: "(2::real) powr (of_int e - 52) = 1 / 2 ^ k"
    by (simp add: powr_minus powr_realpow inverse_eq_divide)
  have "x / (1 / 2 ^ k) = of_int (m * 2 ^ k)" by (simp add: x_def)
  then have "round_half_even (x / (1 / 2 ^ k)) = m * 2 ^ k"
    by (simp only: round_half_even_of_int)
  then have "rd x = of_int (m * 2 ^ k) * (1 / 2 ^ k)"
    using x0 by (simp add: rd_def Let_def e_def [symmetric] u)
  then show ?thesis by (simp add: x_def)
qed

lemma rd_numeral:
  assumes "(numeral k :: int) < 2 ^ 53"
  shows "rd (numeral k) = numeral k"
  using rd_of_int [of "numeral k"] assms by simp

lemma rd_0 [simp]: "rd 0 = 0"
  by (simp add: rd_def)

text \<open>Halving a double rounds nothing.\<close>

lemma rd_half: "rd (x / 2) = rd x / 2"
proof (cases "x = 0")
  case True
  then show ?thesis by simp
next
  case False
  define u :: real where "u = 2 powr (of_int \<lfloor>log 2 \<bar>x\<bar>\<rfloor> - 52)"
  have u0: "0 < u" by (simp add: u_def)
  from False have "log 2 (\<bar>x\<bar> / 2) = log 2 \<bar>x\<bar> - 1"
    by (simp add: log_divide)
  then have "\<lfloor>log 2 (\<bar>x\<bar> / 2)\<rfloor> = \<lfloor>log 2 \<bar>x\<bar>\<rfloor> - 1" by simp
  then have "of_int \<lfloor>log 2 (\<bar>x\<bar> / 2)\<rfloor> = (of_int \<lfloor>log 2 \<bar>x\<bar>\<rfloor> :: real) - 1" by simp
  then have "(2::real) powr (of_int \<lfloor>log 2 (\<bar>x\<bar> / 2)\<rfloor> - 52) = 2 powr (of_int \<lfloor>log 2 \<bar>x\<bar>\<rfloor> - 52 - 1)"
    by (simp only: diff_right_commute)
  also have "\<dots> = u / 2"
    unfolding u_def by (subst powr_diff) simp
  finally have h: "(2::real) powr (of_int \<lfloor>log 2 (\<bar>x\<bar> / 2)\<rfloor> - 52) = u / 2" .
  from False have "rd (x / 2) = of_int (round_half_even (x / 2 / (u / 2))) * (u / 2)"
    by (simp add: rd_def Let_def h)
  also from u0 have "x / 2 / (u / 2) = x / u" by simp
  finally show ?thesis
    using False by (simp add: rd_def Let_def u_def)
qed

subsection \<open>The rounded rotation by 72 degrees\<close>

















subsection \<open>The vertices of a polygon\<close>




subsection \<open>Rotation transforms\<close>

text \<open>
  C2. A Rect and an Ellipse whose fill and opacity lists are not empty always draw, to a
  primitive that carries the transform \<open>rotate(rotation, center)\<close> if and only if the
  rotation passed is not 0; so does a Polygon, alone or in a group before its center
  component. The outer polygon of a PolygonGroup carries no transform, whatever the
  rotation, and neither does a Circle. The first part states this for whatever any draw
  call returns; the others give what the Rect, Ellipse and Polygon draw methods return
  and show that a PolygonGroup draw returns.
\<close>

theorem rotation_transform_iff_nonzero:
  "(draw n prm c center sz rotation g = Inr (nd, g') \<longrightarrow>
      transform_of (primitive_of nd) =
        (case c of
           Circle i st \<Rightarrow> None
         | Rect i st \<Rightarrow> (if rotation \<noteq> 0 then Some (rotation, center) else None)
         | Ellipse i st \<Rightarrow> (if rotation \<noteq> 0 then Some (rotation, center) else None)
         | Polygon i st vc ce \<Rightarrow> (if rotation \<noteq> 0 then Some (rotation, center) else None)
         | PolygonGroup i st vc ve ce \<Rightarrow> None)
      \<and> node_kind (primitive_of nd) =
        (case c of
           Circle i st \<Rightarrow> ''circle''
         | Rect i st \<Rightarrow> ''rect''
         | Ellipse i st \<Rightarrow> ''ellipse''
         | Polygon i st vc ce \<Rightarrow> ''polygon''
         | PolygonGroup i st vc ve ce \<Rightarrow> ''polygon''))
   \<and> draw n prm (Rect i0 st0) center sz rotation g =
       (if fill_options st0 = [] \<or> opacity_options st0 = [] then Inl IndexError
        else Inr (RectNode (fsub (fst center) (sz / 2), fsub (snd center) (sz / 2)) (sz, sz)
                    (fill_options st0 ! (tape g (pos g) mod length (fill_options st0)))
                    (opacity_options st0 ! (tape g (pos g + 1) mod length (opacity_options st0)))
                    (if rotation \<noteq> 0 then Some (rotation, center) else None),
                  g\<lparr>pos := pos g + 2\<rparr>))
   \<and> draw n prm (Ellipse i0 st0) center sz rotation g =
       (if fill_options st0 = [] \<or> opacity_options st0 = [] then Inl IndexError
        else Inr (EllipseNode center (sz / 2, sz / 4)
                    (fill_options st0 ! (tape g (pos g) mod length (fill_options st0)))
                    (opacity_options st0 ! (tape g (pos g + 1) mod length (opacity_options st0)))
                    (if rotation \<noteq> 0 then Some (rotation, center) else None),
                  g\<lparr>pos := pos g + 2\<rparr>))
   \<and> draw n prm (Polygon i0 st0 vc0 ce0) center sz rotation g =
       (if fill_options st0 = [] \<or> opacity_options st0 = [] then Inl IndexError
        else case ce0 of
               None \<Rightarrow>
                 Inr (PolygonNode (polygon_points vc0 center sz)
                        (fill_options st0 ! (tape g (pos g) mod length (fill_options st0)))
                        (opacity_options st0
                           ! (tape g (pos g + 1) mod length (opacity_options st0)))
                        (if rotation \<noteq> 0 then Some (rotation, center) else None),
                      g\<lparr>pos := pos g + 2\<rparr>)
             | Some center_element \<Rightarrow>
                 (case draw_component n prm center center_element (g\<lparr>pos := pos g + 2\<rparr>) of
                    Inl e \<Rightarrow> Inl e
                  | Inr (center_component, g3) \<Rightarrow>
                      Inr (Group [PolygonNode (polygon_points vc0 center sz)
                                    (fill_options st0
                                       ! (tape g (pos g) mod length (fill_options st0)))
                                    (opacity_options st0
                                       ! (tape g (pos g + 1) mod length (opacity_options st0)))
                                    (if rotation \<noteq> 0 then Some (rotation, center) else None),
                                  center_component], g3)))
   \<and> (fill_options st0 \<noteq> [] \<and> opacity_options st0 \<noteq> [] \<and> ve0 \<noteq> Some ''circle'' \<longrightarrow>
        (\<exists>children g3.
            draw n prm (PolygonGroup i0 st0 vc0 ve0 None) center sz rotation g =
              Inr (Group (PolygonNode (polygon_points vc0 center sz)
                            (fill_options st0 ! (tape g (pos g) mod length (fill_options st0)))
                            (opacity_options st0
                               ! (tape g (pos g + 1) mod length (opacity_options st0)))
                            None
                          # children), g3)))"
proof (intro conjI impI)
  assume "draw n prm c center sz rotation g = Inr (nd, g')"
  from draw_returns_transform [OF this]
  show "transform_of (primitive_of nd) =
        (case c of
           Circle i st \<Rightarrow> None
         | Rect i st \<Rightarrow> (if rotation \<noteq> 0 then Some (rotation, center) else None)
         | Ellipse i st \<Rightarrow> (if rotation \<noteq> 0 then Some (rotation, center) else None)
         | Polygon i st vc ce \<Rightarrow> (if rotation \<noteq> 0 then Some (rotation, center) else None)
         | PolygonGroup i st vc ve ce \<Rightarrow> None)"
    and "node_kind (primitive_of nd) =
        (case c of
           Circle i st \<Rightarrow> ''circle''
         | Rect i st \<Rightarrow> ''rect''
         | Ellipse i st \<Rightarrow> ''ellipse''
         | Polygon i st vc ce \<Rightarrow> ''polygon''
         | PolygonGroup i st vc ve ce \<Rightarrow> ''polygon'')"
    by simp_all
next
  show "draw n prm (Rect i0 st0) center sz rotation g =
       (if fill_options st0 = [] \<or> opacity_options st0 = [] then Inl IndexError
        else Inr (RectNode (fsub (fst center) (sz / 2), fsub (snd center) (sz / 2)) (sz, sz)
                    (fill_options st0 ! (tape g (pos g) mod length (fill_options st0)))
                    (opacity_options st0 ! (tape g (pos g + 1) mod length (opacity_options st0)))
                    (if rotation \<noteq> 0 then Some (rotation, center) else None),
                  g\<lparr>pos := pos g + 2\<rparr>))"
    by (simp add: Rect_draw_def random_choice_def rotation_transform_def)
next
  show "draw n prm (Ellipse i0 st0) center sz rotation g =
       (if fill_options st0 = [] \<or> opacity_options st0 = [] then Inl IndexError
        else Inr (EllipseNode center (sz / 2, sz / 4)
                    (fill_options st0 ! (tape g (pos g) mod length (fill_options st0)))
                    (opacity_options st0 ! (tape g (pos g + 1) mod length (opacity_options st0)))
                    (if rotation \<noteq> 0 then Some (rotation, center) else None),
                  g\<lparr>pos := pos g + 2\<rparr>))"
    by (simp add: Ellipse_draw_def random_choice_def rotation_transform_def)
next
  show "draw n prm (Polygon i0 st0 vc0 ce0) center sz rotation g =
       (if fill_options st0 = [] \<or> opacity_options st0 = [] then Inl IndexError
        else case ce0 of
               None \<Rightarrow>
                 Inr (PolygonNode (polygon_points vc0 center sz)
                        (fill_options st0 ! (tape g (pos g) mod length (fill_options st0)))
                        (opacity_options st0
                           ! (tape g (pos g + 1) mod length (opacity_options st0)))
                        (if rotation \<noteq> 0 then Some (rotation, center) else None),
                      g\<lparr>pos := pos g + 2\<rparr>)
             | Some center_element \<Rightarrow>
                 (case draw_component n prm center center_element (g\<lparr>pos := pos g + 2\<rparr>) of
                    Inl e \<Rightarrow> Inl e
                  | Inr (center_component, g3) \<Rightarrow>
                      Inr (Group [PolygonNode (polygon_points vc0 center sz)
                                    (fill_options st0
                                       ! (tape g (pos g) mod length (fill_options st0)))
                                    (opacity_options st0
                                       ! (tape g (pos g + 1) mod length (opacity_options st0)))
                                    (if rotation \<noteq> 0 then Some (rotation, center) else None),
                                  center_component], g3)))"
    by (cases ce0)
      (auto simp: Let_def random_choice_def rotation_transform_def split: sum.splits prod.splits)
next
  assume a: "fill_options st0 \<noteq> [] \<and> opacity_options st0 \<noteq> [] \<and> ve0 \<noteq> Some ''circle''"
  show "\<exists>children g3.
            draw n prm (PolygonGroup i0 st0 vc0 ve0 None) center sz rotation g =
              Inr (Group (PolygonNode (polygon_points vc0 center sz)
                            (fill_options st0 ! (tape g (pos g) mod length (fill_options st0)))
                            (opacity_options st0
                               ! (tape g (pos g + 1) mod length (opacity_options st0)))
                            None
                          # children), g3)"
  proof (cases "ve0 = Some ''polygon''")
    case True
    from a draw_child_polygons_returns
    obtain children g3 where
      "draw_child_polygons st0 vc0 (polygon_points vc0 center sz) [0..<nat vc0] sz rotation
         (g\<lparr>pos := pos g + 2\<rparr>) = Inr (children, g3)"
      by blast
    with a True show ?thesis
      by (simp add: Let_def random_choice_def)
  next
    case False
    with a show ?thesis
      by (simp add: Let_def random_choice_def)
  qed
qed

theorem rotation_transform_iff_nonzero_witness:
  "draw 0 params_empty (Rect ''r'' style_red) (100, 100) 40 45 rng0
     = Inr (RectNode (80, 80) (40, 40) ''red'' 1 (Some (45, (100, 100))), rng0\<lparr>pos := 2\<rparr>)
   \<and> draw 0 params_empty (Rect ''r'' style_red) (100, 100) 40 0 rng0
     = Inr (RectNode (80, 80) (40, 40) ''red'' 1 None, rng0\<lparr>pos := 2\<rparr>)
   \<and> draw 0 params_empty (Ellipse ''e'' style_red) (100, 100) 40 45 rng0
     = Inr (EllipseNode (100, 100) (20, 10) ''red'' 1 (Some (45, (100, 100))), rng0\<lparr>pos := 2\<rparr>)
   \<and> draw 0 params_empty (Ellipse ''e'' style_red) (100, 100) 40 0 rng0
     = Inr (EllipseNode (100, 100) (20, 10) ''red'' 1 None, rng0\<lparr>pos := 2\<rparr>)
   \<and> draw 0 params_empty (Polygon ''p'' style_red 3 None) (100, 100) 40 45 rng0
     = Inr (PolygonNode (polygon_points 3 (100, 100) 40) ''red'' 1 (Some (45, (100, 100))),
            rng0\<lparr>pos := 2\<rparr>)
   \<and> draw 0 params_empty (Polygon ''p'' style_red 3 None) (100, 100) 40 0 rng0
     = Inr (PolygonNode (polygon_points 3 (100, 100) 40) ''red'' 1 None, rng0\<lparr>pos := 2\<rparr>)
   \<and> (\<exists>children g3.
         draw 0 params_empty (PolygonGroup ''pg'' style_red 3 (Some ''polygon'') None)
           (100, 100) 40 45 rng0
           = Inr (Group (PolygonNode (polygon_points 3 (100, 100) 40) ''red'' 1 None # children),
                  g3))
   \<and> transform_of (primitive_of
         (EllipseNode (100, 100) (20, 10) ''red'' 1 (Some (45, (100, 100)))))
       = Some (45, (100, 100))"
proof -
  note t45 = rotation_transform_iff_nonzero
    [where n = 0 and prm = params_empty and center = "(100, 100)" and sz = 40
       and rotation = 45 and g = rng0 and ?st0.0 = style_red and ?vc0.0 = 3
       and ?ce0.0 = None and ?ve0.0 = "Some ''polygon''"]
  note t0 = rotation_transform_iff_nonzero
    [where n = 0 and prm = params_empty and center = "(100, 100)" and sz = 40
       and rotation = 0 and g = rng0 and ?st0.0 = style_red and ?vc0.0 = 3
       and ?ce0.0 = None and ?ve0.0 = "Some ''polygon''"]
  have r45: "draw 0 params_empty (Rect ''r'' style_red) (100, 100) 40 45 rng0
     = Inr (RectNode (80, 80) (40, 40) ''red'' 1 (Some (45, (100, 100))), rng0\<lparr>pos := 2\<rparr>)"
    using t45 [where ?i0.0 = "''r''", THEN conjunct2, THEN conjunct1]
    by (simp add: style_red_def rng0_def fsub_def rd_numeral)
  have r0: "draw 0 params_empty (Rect ''r'' style_red) (100, 100) 40 0 rng0
     = Inr (RectNode (80, 80) (40, 40) ''red'' 1 None, rng0\<lparr>pos := 2\<rparr>)"
    using t0 [where ?i0.0 = "''r''", THEN conjunct2, THEN conjunct1]
    by (simp add: style_red_def rng0_def fsub_def rd_numeral)
  have e45: "draw 0 params_empty (Ellipse ''e'' style_red) (100, 100) 40 45 rng0
     = Inr (EllipseNode (100, 100) (20, 10) ''red'' 1 (Some (45, (100, 100))), rng0\<lparr>pos := 2\<rparr>)"
    using t45 [where ?i0.0 = "''e''", THEN conjunct2, THEN conjunct2, THEN conjunct1]
    by (simp add: style_red_def rng0_def)
  have e0: "draw 0 params_empty (Ellipse ''e'' style_red) (100, 100) 40 0 rng0
     = Inr (EllipseNode (100, 100) (20, 10) ''red'' 1 None, rng0\<lparr>pos := 2\<rparr>)"
    using t0 [where ?i0.0 = "''e''", THEN conjunct2, THEN conjunct2, THEN conjunct1]
    by (simp add: style_red_def rng0_def)
  have p45: "draw 0 params_empty (Polygon ''p'' style_red 3 None) (100, 100) 40 45 rng0
     = Inr (PolygonNode (polygon_points 3 (100, 100) 40) ''red'' 1 (Some (45, (100, 100))),
            rng0\<lparr>pos := 2\<rparr>)"
    using t45 [where ?i0.0 = "''p''", THEN conjunct2, THEN conjunct2, THEN conjunct2, THEN conjunct1]
    by (simp add: style_red_def rng0_def)
  have p0: "draw 0 params_empty (Polygon ''p'' style_red 3 None) (100, 100) 40 0 rng0
     = Inr (PolygonNode (polygon_points 3 (100, 100) 40) ''red'' 1 None, rng0\<lparr>pos := 2\<rparr>)"
    using t0 [where ?i0.0 = "''p''", THEN conjunct2, THEN conjunct2, THEN conjunct2, THEN conjunct1]
    by (simp add: style_red_def rng0_def)
  have ne: "fill_options style_red \<noteq> [] \<and> opacity_options style_red \<noteq> []
      \<and> Some ''polygon'' \<noteq> Some ''circle''"
    by (simp add: style_red_def)
  have fo: "fill_options style_red ! (tape rng0 (pos rng0) mod length (fill_options style_red))
      = ''red''"
    "opacity_options style_red
       ! (tape rng0 (pos rng0 + 1) mod length (opacity_options style_red)) = 1"
    by (simp_all add: style_red_def)
  have pg: "\<exists>children g3.
         draw 0 params_empty (PolygonGroup ''pg'' style_red 3 (Some ''polygon'') None)
           (100, 100) 40 45 rng0
           = Inr (Group (PolygonNode (polygon_points 3 (100, 100) 40) ''red'' 1 None # children),
                  g3)"
    using t45 [where ?i0.0 = "''pg''", THEN conjunct2, THEN conjunct2, THEN conjunct2,
        THEN conjunct2, THEN mp, OF ne]
    unfolding fo .
  have tr: "transform_of (primitive_of
         (EllipseNode (100, 100) (20, 10) ''red'' 1 (Some (45, (100, 100)))))
       = Some (45, (100, 100))"
    using t45 [where c = "Ellipse ''e'' style_red", THEN conjunct1, THEN mp, OF e45]
    by simp
  show ?thesis
    by (rule conjI [OF r45 conjI [OF r0 conjI [OF e45 conjI [OF e0 conjI [OF p45
          conjI [OF p0 conjI [OF pg tr]]]]]]])
qed

subsection \<open>The center element of a Polygon\<close>

text \<open>
  C3. A Polygon whose \<open>center_element\<close> is None draws to the bare polygon primitive.
  Otherwise it draws to a group of exactly the polygon and then the center component:
  the component stored under that id in the freshly rebuilt registry, drawn at the same
  center, with a size and a rotation chosen from that component's own options.
\<close>

theorem polygon_center_element:
  assumes "draw n prm (Polygon i st vc ce) center sz rotation g = Inr (nd, g')"
  shows "\<exists>fill opacity g2.
           random_choice (fill_options st) g = Inr (fill, g\<lparr>pos := Suc (pos g)\<rparr>)
         \<and> random_choice (opacity_options st) (g\<lparr>pos := Suc (pos g)\<rparr>) = Inr (opacity, g2)
         \<and> (let polygon = PolygonNode (polygon_points vc center sz) fill opacity
                             (rotation_transform rotation center)
            in case ce of
                 None \<Rightarrow> nd = polygon \<and> g' = g2
               | Some center_element \<Rightarrow>
                   (\<exists>m components component g3 size_opt g4 rotation_opt g5 center_component.
                      n = Suc m
                    \<and> parse_components prm g2 = Inr (components, g3)
                    \<and> components center_element = Some (Some component)
                    \<and> random_choice (size_options (style_of component)) g3 = Inr (size_opt, g4)
                    \<and> random_choice (rotation_options (style_of component)) g4
                        = Inr (rotation_opt, g5)
                    \<and> draw m prm component center size_opt rotation_opt g5
                        = Inr (center_component, g')
                    \<and> nd = Group [polygon, center_component]))"
proof -
  from assms obtain fill g1 where f: "random_choice (fill_options st) g = Inr (fill, g1)"
    by (auto simp: Let_def split: sum.splits prod.splits)
  then have g1: "g1 = g\<lparr>pos := Suc (pos g)\<rparr>"
    by (simp add: random_choice_Inr)
  from assms f obtain opacity g2 where o: "random_choice (opacity_options st) g1 = Inr (opacity, g2)"
    by (auto simp: Let_def split: sum.splits prod.splits)
  show ?thesis
  proof (cases ce)
    case None
    with assms f o g1 show ?thesis by (auto simp: Let_def)
  next
    case (Some center_element)
    with assms f o obtain center_component where
      d: "draw_component n prm center center_element g2 = Inr (center_component, g')"
      and nd: "nd = Group [PolygonNode (polygon_points vc center sz) fill opacity
                             (rotation_transform rotation center), center_component]"
      by (auto simp: Let_def split: sum.splits prod.splits)
    from d obtain m where n: "n = Suc m" by (cases n) auto
    from d [unfolded n] obtain components g3 component size_opt g4 rotation_opt g5 where
      "parse_components prm g2 = Inr (components, g3)"
      "components center_element = Some (Some component)"
      "random_choice (size_options (style_of component)) g3 = Inr (size_opt, g4)"
      "random_choice (rotation_options (style_of component)) g4 = Inr (rotation_opt, g5)"
      "draw m prm component center size_opt rotation_opt g5 = Inr (center_component, g')"
      by (auto split: sum.splits prod.splits option.splits)
    with Some f o g1 nd n show ?thesis by (auto simp: Let_def)
  qed
qed

theorem polygon_center_element_witness:
  "draw 1 params_dot (Polygon ''tri'' style_red 3 (Some ''circle'')) (100, 100) 100 0 rng0
     = Inr (Group [PolygonNode (polygon_points 3 (100, 100) 100) ''red'' 1 None,
                   CircleNode (100, 100) 50 ''red'' 1], rng0\<lparr>pos := 6\<rparr>)
   \<and> (\<exists>fill opacity g2.
           random_choice (fill_options style_red) rng0 = Inr (fill, rng0\<lparr>pos := Suc (pos rng0)\<rparr>)
         \<and> random_choice (opacity_options style_red) (rng0\<lparr>pos := Suc (pos rng0)\<rparr>)
             = Inr (opacity, g2)
         \<and> (let polygon = PolygonNode (polygon_points 3 (100, 100) 100) fill opacity
                             (rotation_transform 0 (100, 100))
            in case Some ''circle'' of
                 None \<Rightarrow> Group [PolygonNode (polygon_points 3 (100, 100) 100) ''red'' 1 None,
                                 CircleNode (100, 100) 50 ''red'' 1] = polygon
                         \<and> rng0\<lparr>pos := 6\<rparr> = g2
               | Some center_element \<Rightarrow>
                   (\<exists>m components component g3 size_opt g4 rotation_opt g5 center_component.
                      1 = Suc m
                    \<and> parse_components params_dot g2 = Inr (components, g3)
                    \<and> components center_element = Some (Some component)
                    \<and> random_choice (size_options (style_of component)) g3 = Inr (size_opt, g4)
                    \<and> random_choice (rotation_options (style_of component)) g4
                        = Inr (rotation_opt, g5)
                    \<and> draw m params_dot component (100, 100) size_opt rotation_opt g5
                        = Inr (center_component, rng0\<lparr>pos := 6\<rparr>)
                    \<and> Group [PolygonNode (polygon_points 3 (100, 100) 100) ''red'' 1 None,
                              CircleNode (100, 100) 50 ''red'' 1]
                        = Group [polygon, center_component])))"
proof -
  have h: "draw 1 params_dot (Polygon ''tri'' style_red 3 (Some ''circle'')) (100, 100) 100 0 rng0
     = Inr (Group [PolygonNode (polygon_points 3 (100, 100) 100) ''red'' 1 None,
                   CircleNode (100, 100) 50 ''red'' 1], rng0\<lparr>pos := 6\<rparr>)"
    by (simp add: Let_def random_choice_def style_red_def rng0_def rotation_transform_def
        parse_components_params_dot Circle_draw_def)
  show ?thesis
    by (rule conjI [OF h polygon_center_element [OF h]])
qed

subsection \<open>Circles at the vertices of a PolygonGroup\<close>

text \<open>
  C4. A PolygonGroup whose \<open>vertex_elements\<close> is \<open>"circle"\<close> draws to a group of the outer
  polygon, the center component when there is one, and then exactly \<open>vertex_count\<close>
  children: child \<open>k\<close> is the component stored under the fixed id \<open>"circle"\<close> in the freshly
  rebuilt registry, drawn at the \<open>k\<close>-th computed vertex with a size and a rotation
  chosen from that component's own options. Only the first \<open>vertex_count\<close> vertices are
  used, not the closing one.
\<close>

theorem circle_vertex_elements:
  assumes "draw n prm (PolygonGroup i st vc (Some ''circle'') ce) center sz rotation g
             = Inr (nd, g')"
  shows "\<exists>fill opacity centers children gs.
           nd = Group (PolygonNode (polygon_points vc center sz) fill opacity None
                       # centers @ children)
         \<and> length centers = (case ce of None \<Rightarrow> 0 | Some center_element \<Rightarrow> 1)
         \<and> length children = nat vc
         \<and> length gs = Suc (nat vc)
         \<and> gs ! nat vc = g'
         \<and> (\<forall>k<nat vc.
               \<exists>m components g1 component size_opt g2 rotation_opt g3.
                  n = Suc m
                \<and> parse_components prm (gs ! k) = Inr (components, g1)
                \<and> components ''circle'' = Some (Some component)
                \<and> random_choice (size_options (style_of component)) g1 = Inr (size_opt, g2)
                \<and> random_choice (rotation_options (style_of component)) g2
                    = Inr (rotation_opt, g3)
                \<and> draw m prm component (polygon_points vc center sz ! k) size_opt rotation_opt g3
                    = Inr (children ! k, gs ! Suc k))"
proof -
  have "\<exists>fill opacity centers g3 children.
           nd = Group (PolygonNode (polygon_points vc center sz) fill opacity None
                       # centers @ children)
         \<and> length centers = (case ce of None \<Rightarrow> 0 | Some center_element \<Rightarrow> 1)
         \<and> draw_vertex_circles n prm (polygon_points vc center sz) [0..<nat vc] g3
              = Inr (children, g')"
  proof (cases ce)
    case None
    with assms show ?thesis
      by (auto simp: Let_def split: sum.splits prod.splits)
  next
    case (Some center_element)
    with assms obtain fill opacity center_component g3 children where
      "nd = Group (PolygonNode (polygon_points vc center sz) fill opacity None
                       # [center_component] @ children)"
      "draw_vertex_circles n prm (polygon_points vc center sz) [0..<nat vc] g3
              = Inr (children, g')"
      by (auto simp: Let_def split: sum.splits prod.splits)
    with Some show ?thesis
      by (intro exI [of _ fill] exI [of _ opacity] exI [of _ "[center_component]"]
          exI [of _ g3] exI [of _ children]) simp
  qed
  then obtain fill opacity centers g3 children where
    nd: "nd = Group (PolygonNode (polygon_points vc center sz) fill opacity None
                       # centers @ children)"
    and ce: "length centers = (case ce of None \<Rightarrow> 0 | Some center_element \<Rightarrow> 1)"
    and v: "draw_vertex_circles n prm (polygon_points vc center sz) [0..<nat vc] g3
              = Inr (children, g')"
    by blast
  from draw_vertex_circles_Inr [OF v] obtain gs where
    gs: "length children = nat vc" "length gs = Suc (nat vc)" "gs ! nat vc = g'"
      "\<forall>k<nat vc. draw_component n prm (polygon_points vc center sz ! k) ''circle'' (gs ! k)
                    = Inr (children ! k, gs ! Suc k)"
    by auto
  have "\<forall>k<nat vc.
               \<exists>m components g1 component size_opt g2 rotation_opt g3.
                  n = Suc m
                \<and> parse_components prm (gs ! k) = Inr (components, g1)
                \<and> components ''circle'' = Some (Some component)
                \<and> random_choice (size_options (style_of component)) g1 = Inr (size_opt, g2)
                \<and> random_choice (rotation_options (style_of component)) g2
                    = Inr (rotation_opt, g3)
                \<and> draw m prm component (polygon_points vc center sz ! k) size_opt rotation_opt g3
                    = Inr (children ! k, gs ! Suc k)"
    using gs(4) draw_component_InrD by blast
  with nd ce gs(1-3) show ?thesis by blast
qed

theorem circle_vertex_elements_witness:
  "(draw 1 params_dot (PolygonGroup ''pg'' style_red 4 (Some ''circle'') None) (50, 50) 40 0 rng0
     = Inr (Group [PolygonNode (polygon_points 4 (50, 50) 40) ''red'' 1 None,
                   CircleNode (polygon_points 4 (50, 50) 40 ! 0) 50 ''red'' 1,
                   CircleNode (polygon_points 4 (50, 50) 40 ! 1) 50 ''red'' 1,
                   CircleNode (polygon_points 4 (50, 50) 40 ! 2) 50 ''red'' 1,
                   CircleNode (polygon_points 4 (50, 50) 40 ! 3) 50 ''red'' 1],
            rng0\<lparr>pos := 18\<rparr>))
   \<and> (\<exists>fill opacity centers children gs.
           (Group [PolygonNode (polygon_points 4 (50, 50) 40) ''red'' 1 None,
                   CircleNode (polygon_points 4 (50, 50) 40 ! 0) 50 ''red'' 1,
                   CircleNode (polygon_points 4 (50, 50) 40 ! 1) 50 ''red'' 1,
                   CircleNode (polygon_points 4 (50, 50) 40 ! 2) 50 ''red'' 1,
                   CircleNode (polygon_points 4 (50, 50) 40 ! 3) 50 ''red'' 1]) = Group (PolygonNode (polygon_points 4 (50, 50) 40) fill opacity None
                       # centers @ children)
         \<and> length centers = (case (None::string option) of None \<Rightarrow> 0 | Some center_element \<Rightarrow> 1)
         \<and> length children = nat 4
         \<and> length gs = Suc (nat 4)
         \<and> gs ! nat 4 = (rng0\<lparr>pos := 18\<rparr>)
         \<and> (\<forall>k<nat 4.
               \<exists>m components g1 component size_opt g2 rotation_opt g3.
                  1 = Suc m
                \<and> parse_components params_dot (gs ! k) = Inr (components, g1)
                \<and> components ''circle'' = Some (Some component)
                \<and> random_choice (size_options (style_of component)) g1 = Inr (size_opt, g2)
                \<and> random_choice (rotation_options (style_of component)) g2
                    = Inr (rotation_opt, g3)
                \<and> draw m params_dot component (polygon_points 4 (50, 50) 40 ! k) size_opt rotation_opt g3
                    = Inr (children ! k, gs ! Suc k)))"
proof -
  have h1: "draw 1 params_dot (PolygonGroup ''pg'' style_red 4 (Some ''circle'') None) (50, 50) 40 0 rng0
     = Inr (Group [PolygonNode (polygon_points 4 (50, 50) 40) ''red'' 1 None,
                   CircleNode (polygon_points 4 (50, 50) 40 ! 0) 50 ''red'' 1,
                   CircleNode (polygon_points 4 (50, 50) 40 ! 1) 50 ''red'' 1,
                   CircleNode (polygon_points 4 (50, 50) 40 ! 2) 50 ''red'' 1,
                   CircleNode (polygon_points 4 (50, 50) 40 ! 3) 50 ''red'' 1],
            rng0\<lparr>pos := 18\<rparr>)"
    by (rule group_circle_draw)
  note t = circle_vertex_elements [OF h1]
  show ?thesis
    by (rule conjI [OF h1 t])
qed

subsection \<open>Child polygons at the vertices of a PolygonGroup\<close>

text \<open>
  C5, as the code has it. A PolygonGroup whose \<open>vertex_elements\<close> is \<open>"polygon"\<close> appends
  exactly \<open>vertex_count\<close> child polygons. Child \<open>k\<close> is centered at the \<open>k\<close>-th computed
  vertex, has the group's own vertex count and the size passed to the group, and carries
  the rotation passed to the group, about its own center, if and only if that rotation is
  not 0. Its fill and opacity are not the values chosen for the outer polygon: each child
  chooses them anew from the group's \<open>fill_options\<close> and \<open>opacity_options\<close>, at the
  positions \<open>2k\<close> and \<open>2k + 1\<close> of the random tape after the center element.
\<close>

theorem polygon_vertex_elements:
  assumes "draw n prm (PolygonGroup i st vc (Some ''polygon'') ce) center sz rotation g
             = Inr (nd, g')"
  shows "\<exists>fill opacity centers children g3.
           nd = Group (PolygonNode (polygon_points vc center sz) fill opacity None
                       # centers @ children)
         \<and> (case ce of
              None \<Rightarrow> centers = [] \<and> g3 = g\<lparr>pos := pos g + 2\<rparr>
            | Some center_element \<Rightarrow>
                (\<exists>center_component. centers = [center_component]
                   \<and> draw_component n prm center center_element (g\<lparr>pos := pos g + 2\<rparr>)
                       = Inr (center_component, g3)))
         \<and> length children = nat vc
         \<and> g' = g3\<lparr>pos := pos g3 + 2 * nat vc\<rparr>
         \<and> (\<forall>k<nat vc. children ! k =
               PolygonNode (polygon_points vc (polygon_points vc center sz ! k) sz)
                 (fill_options st ! (tape g3 (pos g3 + 2 * k) mod length (fill_options st)))
                 (opacity_options st
                    ! (tape g3 (pos g3 + 2 * k + 1) mod length (opacity_options st)))
                 (if rotation \<noteq> 0 then Some (rotation, polygon_points vc center sz ! k)
                  else None))"
proof -
  from assms obtain fill opacity centers g3 children where
    nd: "nd = Group (PolygonNode (polygon_points vc center sz) fill opacity None
                       # centers @ children)"
    and ce: "case ce of
              None \<Rightarrow> centers = [] \<and> g3 = g\<lparr>pos := pos g + 2\<rparr>
            | Some center_element \<Rightarrow>
                (\<exists>center_component. centers = [center_component]
                   \<and> draw_component n prm center center_element (g\<lparr>pos := pos g + 2\<rparr>)
                       = Inr (center_component, g3))"
    and v: "draw_child_polygons st vc (polygon_points vc center sz) [0..<nat vc] sz rotation g3
              = Inr (children, g')"
    by (auto simp: Let_def random_choice_Inr split: sum.splits prod.splits option.splits)
  from draw_child_polygons_Inr [OF v]
  have "length children = nat vc" "g' = g3\<lparr>pos := pos g3 + 2 * nat vc\<rparr>"
    "\<forall>k<nat vc. children ! k =
               PolygonNode (polygon_points vc (polygon_points vc center sz ! k) sz)
                 (fill_options st ! (tape g3 (pos g3 + 2 * k) mod length (fill_options st)))
                 (opacity_options st
                    ! (tape g3 (pos g3 + 2 * k + 1) mod length (opacity_options st)))
                 (if rotation \<noteq> 0 then Some (rotation, polygon_points vc center sz ! k)
                  else None)"
    by (simp_all add: rotation_transform_def)
  with nd ce show ?thesis by blast
qed

theorem polygon_vertex_elements_witness:
  "(draw 0 params_empty (PolygonGroup ''pg'' style_rgb 3 (Some ''polygon'') None) (50, 50) 40 30 rng0
     = Inr (Group [PolygonNode (polygon_points 3 (50, 50) 40) ''red'' 1 None,
                   PolygonNode (polygon_points 3 (polygon_points 3 (50, 50) 40 ! 0) 40) ''blue'' 1
                     (Some (30, polygon_points 3 (50, 50) 40 ! 0)),
                   PolygonNode (polygon_points 3 (polygon_points 3 (50, 50) 40 ! 1) 40) ''green'' 1
                     (Some (30, polygon_points 3 (50, 50) 40 ! 1)),
                   PolygonNode (polygon_points 3 (polygon_points 3 (50, 50) 40 ! 2) 40) ''red'' 1
                     (Some (30, polygon_points 3 (50, 50) 40 ! 2))],
            rng0\<lparr>pos := 8\<rparr>))
   \<and> (\<exists>fill opacity centers children g3.
           (Group [PolygonNode (polygon_points 3 (50, 50) 40) ''red'' 1 None,
                   PolygonNode (polygon_points 3 (polygon_points 3 (50, 50) 40 ! 0) 40) ''blue'' 1
                     (Some (30, polygon_points 3 (50, 50) 40 ! 0)),
                   PolygonNode (polygon_points 3 (polygon_points 3 (50, 50) 40 ! 1) 40) ''green'' 1
                     (Some (30, polygon_points 3 (50, 50) 40 ! 1)),
                   PolygonNode (polygon_points 3 (polygon_points 3 (50, 50) 40 ! 2) 40) ''red'' 1
                     (Some (30, polygon_points 3 (50, 50) 40 ! 2))]) = Group (PolygonNode (polygon_points 3 (50, 50) 40) fill opacity None
                       # centers @ children)
         \<and> (case None of
              None \<Rightarrow> centers = [] \<and> g3 = rng0\<lparr>pos := pos rng0 + 2\<rparr>
            | Some center_element \<Rightarrow>
                (\<exists>center_component. centers = [center_component]
                   \<and> draw_component 0 params_empty (50, 50) center_element (rng0\<lparr>pos := pos rng0 + 2\<rparr>)
                       = Inr (center_component, g3)))
         \<and> length children = nat 3
         \<and> (rng0\<lparr>pos := 8\<rparr>) = g3\<lparr>pos := pos g3 + 2 * nat 3\<rparr>
         \<and> (\<forall>k<nat 3. children ! k =
               PolygonNode (polygon_points 3 (polygon_points 3 (50, 50) 40 ! k) 40)
                 (fill_options style_rgb ! (tape g3 (pos g3 + 2 * k) mod length (fill_options style_rgb)))
                 (opacity_options style_rgb
                    ! (tape g3 (pos g3 + 2 * k + 1) mod length (opacity_options style_rgb)))
                 (if (30::real) \<noteq> 0 then Some ((30::real), polygon_points 3 (50, 50) 40 ! k)
                  else None)))"
proof -
  have h1: "draw 0 params_empty (PolygonGroup ''pg'' style_rgb 3 (Some ''polygon'') None) (50, 50) 40 30 rng0
     = Inr (Group [PolygonNode (polygon_points 3 (50, 50) 40) ''red'' 1 None,
                   PolygonNode (polygon_points 3 (polygon_points 3 (50, 50) 40 ! 0) 40) ''blue'' 1
                     (Some (30, polygon_points 3 (50, 50) 40 ! 0)),
                   PolygonNode (polygon_points 3 (polygon_points 3 (50, 50) 40 ! 1) 40) ''green'' 1
                     (Some (30, polygon_points 3 (50, 50) 40 ! 1)),
                   PolygonNode (polygon_points 3 (polygon_points 3 (50, 50) 40 ! 2) 40) ''red'' 1
                     (Some (30, polygon_points 3 (50, 50) 40 ! 2))],
            rng0\<lparr>pos := 8\<rparr>)"
    by (rule group_polygon_draw)
  note t = polygon_vertex_elements [OF h1]
  show ?thesis
    by (rule conjI [OF h1 t])
qed

text \<open>
  With three fill options the outer polygon of this group is red and its first child is
  blue: the children do not reuse the fill chosen for the parent.
\<close>

theorem child_polygon_fill_counterexample:
  "draw 0 params_empty (PolygonGroup ''pg'' style_rgb 3 (Some ''polygon'') None) (50, 50) 40 30 rng0
     = Inr (Group [PolygonNode (polygon_points 3 (50, 50) 40) ''red'' 1 None,
                   PolygonNode (polygon_points 3 (polygon_points 3 (50, 50) 40 ! 0) 40) ''blue'' 1
                     (Some (30, polygon_points 3 (50, 50) 40 ! 0)),
                   PolygonNode (polygon_points 3 (polygon_points 3 (50, 50) 40 ! 1) 40) ''green'' 1
                     (Some (30, polygon_points 3 (50, 50) 40 ! 1)),
                   PolygonNode (polygon_points 3 (polygon_points 3 (50, 50) 40 ! 2) 40) ''red'' 1
                     (Some (30, polygon_points 3 (50, 50) 40 ! 2))],
            rng0\<lparr>pos := 8\<rparr>)"
  by (simp add: upt_3 Let_def random_choice_def rng0_def style_rgb_def
      draw_child_polygon_def rotation_transform_def)

subsection \<open>Termination of the recursive composition\<close>

text \<open>
  C6, as the code has it. When the references between the entries of \<open>element_defs\<close> are
  acyclic, that is, when some rank decreases along every reference, \<open>draw_component\<close> calls
  nest no deeper than the rank of the component plus one: given room for that many nested
  calls, \<open>draw_component\<close> and \<open>main\<close> return a node or a configuration error, never
  RecursionError. Nothing detects a cycle. When every rebuild of the registry gives each
  component of a set of ids a first nested call that is again in the set (a center element,
  or the vertex circles), drawing any of them nests without end and ends in RecursionError,
  whatever room the stack has: a component that references itself, two components that
  reference each other, any longer cycle.
\<close>

theorem composition_terminates_unless_cyclic:
  "((\<forall>(key, d) \<in> set (element_defs prm). \<forall>c \<in> set (references d). rank c < rank key) \<longrightarrow>
      (rank cid < fuel \<longrightarrow> draw_component fuel prm center cid g \<noteq> Inl RecursionError)
    \<and> ((\<forall>c \<in> set (component_to_draw prm). rank c \<le> fuel) \<longrightarrow>
         (\<forall>dwg. main fuel prm g \<noteq> Inl (RecursionError, dwg))))
   \<and> ((\<forall>x \<in> S. \<forall>g0. \<exists>components g1 c y.
           parse_components prm' g0 = Inr (components, g1)
         \<and> components x = Some (Some c)
         \<and> fill_options (style_of c) \<noteq> [] \<and> opacity_options (style_of c) \<noteq> []
         \<and> size_options (style_of c) \<noteq> [] \<and> rotation_options (style_of c) \<noteq> []
         \<and> first_nested_call c = Some y \<and> y \<in> S) \<longrightarrow>
       (cid' \<in> S \<longrightarrow> draw_component fuel' prm' center' cid' g' = Inl RecursionError))"
proof (intro conjI impI allI)
  assume ranked:
    "\<forall>(key, d) \<in> set (element_defs prm). \<forall>c \<in> set (references d). rank c < rank key"
  {
    assume "rank cid < fuel"
    with ranked show "draw_component fuel prm center cid g \<noteq> Inl RecursionError"
      by (rule ranked_no_recursion_error)
  }
  {
    fix dwg
    assume top: "\<forall>c \<in> set (component_to_draw prm). rank c \<le> fuel"
    show "main fuel prm g \<noteq> Inl (RecursionError, dwg)"
    proof (cases "parse_components prm g")
      case (Inl e)
      then have "e = IndexError"
        by (auto simp: parse_components_def dest: build_components_error)
      with Inl show ?thesis by (simp add: main_def)
    next
      case (Inr r)
      then obtain components g1 where p: "parse_components prm g = Inr (components, g1)"
        by (cases r) auto
      have "draw fuel prm c center0 sz rotation g0 \<noteq> Inl RecursionError"
        if "c0 \<in> set (component_to_draw prm)" "components c0 = Some (Some c)"
        for c0 c center0 sz rotation g0
      proof (rule draw_no_recursion_error)
        fix r center1 g2
        assume r: "r \<in> component_references c"
        from parse_components_lookup [OF p that(2)] obtain d where
          d: "(c0, d) \<in> set (element_defs prm)" "component_references c \<subseteq> set (references d)"
          by blast
        from r d(2) have "r \<in> set (references d)" by blast
        with ranked d(1) have "rank r < rank c0" by blast
        with top that(1) have "rank r < fuel" by fastforce
        with ranked show "draw_component fuel prm center1 r g2 \<noteq> Inl RecursionError"
          by (rule ranked_no_recursion_error)
      qed
      then have "main_loop fuel prm components center0 (component_to_draw prm) [] g1
                   \<noteq> Inl (RecursionError, dwg)" for center0
        by (rule main_loop_no_recursion_error)
      with p show ?thesis by (simp add: main_def Let_def)
    qed
  }
next
  assume h: "\<forall>x \<in> S. \<forall>g0. \<exists>components g1 c y.
           parse_components prm' g0 = Inr (components, g1)
         \<and> components x = Some (Some c)
         \<and> fill_options (style_of c) \<noteq> [] \<and> opacity_options (style_of c) \<noteq> []
         \<and> size_options (style_of c) \<noteq> [] \<and> rotation_options (style_of c) \<noteq> []
         \<and> first_nested_call c = Some y \<and> y \<in> S"
    and x: "cid' \<in> S"
  show "draw_component fuel' prm' center' cid' g' = Inl RecursionError"
    by (rule cycle_recurses [of S prm', OF _ x]) (use h in blast)
qed

theorem composition_terminates_unless_cyclic_witness:
  "list_all (\<lambda>(key, d). list_all (\<lambda>c. rank_nested c < rank_nested key) (references d))
     (element_defs params_nested)
   \<and> rank_nested ''tri'' < 2
   \<and> draw_component 2 params_nested (100, 100) ''tri'' rng0 \<noteq> Inl RecursionError
   \<and> list_all (\<lambda>c. rank_nested c \<le> 1) (component_to_draw params_nested)
   \<and> (\<forall>dwg. main 1 params_nested rng0 \<noteq> Inl (RecursionError, dwg))
   \<and> ''A'' \<in> {''A'', ''B''}
   \<and> draw_component 1000 params_two_cycle (100, 100) ''A'' rng0 = Inl RecursionError
   \<and> draw_component 1000 params_two_cycle (100, 100) ''B'' rng0 = Inl RecursionError"
proof -
  have h1: "\<forall>(key, d) \<in> set (element_defs params_nested).
       \<forall>c \<in> set (references d). rank_nested c < rank_nested key"
    by (simp add: params_nested_def references_def polygon_def_def circle_def_def rank_nested_def)
  have h2: "rank_nested ''tri'' < 2"
    by (simp add: rank_nested_def)
  have h3: "\<forall>c \<in> set (component_to_draw params_nested). rank_nested c \<le> 1"
    by (simp add: params_nested_def rank_nested_def)
  have h4: "\<forall>x \<in> {''A'', ''B''}. \<forall>g0. \<exists>components g1 c y.
           parse_components params_two_cycle g0 = Inr (components, g1)
         \<and> components x = Some (Some c)
         \<and> fill_options (style_of c) \<noteq> [] \<and> opacity_options (style_of c) \<noteq> []
         \<and> size_options (style_of c) \<noteq> [] \<and> rotation_options (style_of c) \<noteq> []
         \<and> first_nested_call c = Some y \<and> y \<in> {''A'', ''B''}"
    by (simp add: params_two_cycle_parse style_red_def)
  have h5: "''A'' \<in> {''A'', ''B''}" and h6: "''B'' \<in> {''A'', ''B''}"
    by simp_all
  note t1 = composition_terminates_unless_cyclic
    [where prm = params_nested and rank = rank_nested and cid = "''tri''" and fuel = 2
       and center = "(100, 100)" and g = rng0, THEN conjunct1, THEN mp, OF h1]
  note t2 = composition_terminates_unless_cyclic
    [where prm = params_nested and rank = rank_nested and cid = "''tri''" and fuel = 1
       and center = "(100, 100)" and g = rng0, THEN conjunct1, THEN mp, OF h1]
  note t3 = composition_terminates_unless_cyclic
    [where S = "{''A'', ''B''}" and prm' = params_two_cycle and fuel' = 1000
       and center' = "(100, 100)" and g' = rng0 and cid' = "''A''",
     THEN conjunct2, THEN mp, OF h4]
  note t4 = composition_terminates_unless_cyclic
    [where S = "{''A'', ''B''}" and prm' = params_two_cycle and fuel' = 1000
       and center' = "(100, 100)" and g' = rng0 and cid' = "''B''",
     THEN conjunct2, THEN mp, OF h4]
  have a: "draw_component 2 params_nested (100, 100) ''tri'' rng0 \<noteq> Inl RecursionError"
    using t1 h2 by blast
  have b: "\<forall>dwg. main 1 params_nested rng0 \<noteq> Inl (RecursionError, dwg)"
    using t2 h3 by blast
  have c: "draw_component 1000 params_two_cycle (100, 100) ''A'' rng0 = Inl RecursionError"
    using t3 h5 by (rule mp)
  have d: "draw_component 1000 params_two_cycle (100, 100) ''B'' rng0 = Inl RecursionError"
    using t4 h6 by (rule mp)
  have l1: "list_all (\<lambda>(key, d). list_all (\<lambda>c. rank_nested c < rank_nested key) (references d))
     (element_defs params_nested)"
    using h1 by (simp add: list_all_iff case_prod_beta)
  have l3: "list_all (\<lambda>c. rank_nested c \<le> 1) (component_to_draw params_nested)"
    using h3 by (simp add: list_all_iff)
  show ?thesis
    by (rule conjI [OF l1 conjI [OF h2 conjI [OF a conjI [OF l3 conjI [OF b
          conjI [OF h5 conjI [OF c d]]]]]]])
qed

text \<open>
  A Polygon \<open>A\<close> whose only center element is \<open>A\<close>, with room for 1000 nested calls:
  the run uses it all up and ends in RecursionError; no cyclic reference is reported.
\<close>

theorem cyclic_reference_counterexample:
  "main 1000 params_cyclic rng0 = Inl (RecursionError, [])"
  by (simp add: main_def params_cyclic_parse params_cyclic_fields Let_def random_choice_def
      style_red_def params_cyclic_recurses)

subsection \<open>An empty option list\<close>

text \<open>
  C7, as the code has it. Nothing checks the option lists before drawing starts. An empty
  list fails with IndexError where the draw path reaches it: fill and opacity in the draw
  method, size and rotation in \<open>draw_component\<close> or in the loop of \<open>main\<close>, for a listed
  component as for a nested one. Every enclosing call returns the error it receives
  unchanged: \<open>draw_component\<close> that of the draw method, the draw methods of Polygon and
  PolygonGroup that of the center element, the vertex loop and the group that of a vertex
  circle, the loop of \<open>main\<close> that of a listed component, and \<open>main\<close> that of its loop. So
  the run ends with the error; the components listed before have been drawn and added to
  the drawing, those after it are never drawn, and nothing is tried again.
\<close>

theorem empty_option_set_is_fatal:
  "(fill_options (style_of c) = [] \<or> opacity_options (style_of c) = [] \<longrightarrow>
      draw n prm c center sz rotation g = Inl IndexError)
   \<and> (parse_components prm g = Inr (components, g1) \<and> components cid = Some (Some c)
        \<and> (size_options (style_of c) = [] \<or> rotation_options (style_of c) = []) \<longrightarrow>
      draw_component (Suc n) prm center cid g = Inl IndexError)
   \<and> (parse_components prm g = Inr (components, g1) \<and> components cid = Some (Some c)
        \<and> random_choice (size_options (style_of c)) g1 = Inr (size_opt, g2)
        \<and> random_choice (rotation_options (style_of c)) g2 = Inr (rotation_opt, g3)
        \<and> draw n prm c center size_opt rotation_opt g3 = Inl e \<longrightarrow>
      draw_component (Suc n) prm center cid g = Inl e)
   \<and> (fill_options st \<noteq> [] \<and> opacity_options st \<noteq> []
        \<and> draw_component n prm center center_element (g\<lparr>pos := pos g + 2\<rparr>) = Inl e \<longrightarrow>
      draw n prm (Polygon i st vc (Some center_element)) center sz rotation g = Inl e
      \<and> draw n prm (PolygonGroup i st vc ve (Some center_element)) center sz rotation g = Inl e)
   \<and> (draw_vertex_circles n prm points_list ixs g = Inr (children, g1)
        \<and> draw_component n prm (points_list ! k) ''circle'' g1 = Inl e \<longrightarrow>
      draw_vertex_circles n prm points_list (ixs @ k # rest) g = Inl e)
   \<and> (fill_options st \<noteq> [] \<and> opacity_options st \<noteq> []
        \<and> (case ce of
              None \<Rightarrow> g3 = g\<lparr>pos := pos g + 2\<rparr>
            | Some center_element \<Rightarrow>
                (\<exists>center_component.
                    draw_component n prm center center_element (g\<lparr>pos := pos g + 2\<rparr>)
                      = Inr (center_component, g3)))
        \<and> draw_vertex_circles n prm (polygon_points vc center sz) [0..<nat vc] g3 = Inl e \<longrightarrow>
      draw n prm (PolygonGroup i st vc (Some ''circle'') ce) center sz rotation g = Inl e)
   \<and> (main_loop n prm components center pre dwg g = Inr (dwg1, g1)
        \<and> components cid = Some (Some c)
        \<and> (fill_options (style_of c) = [] \<or> opacity_options (style_of c) = []
            \<or> size_options (style_of c) = [] \<or> rotation_options (style_of c) = []) \<longrightarrow>
      main_loop n prm components center (pre @ cid # post) dwg g = Inl (IndexError, dwg1))
   \<and> (main_loop n prm components center pre dwg g = Inr (dwg1, g1)
        \<and> components cid = Some (Some c)
        \<and> random_choice (size_options (style_of c)) g1 = Inr (size_opt, g2)
        \<and> random_choice (rotation_options (style_of c)) g2 = Inr (rotation_opt, g3)
        \<and> draw n prm c center size_opt rotation_opt g3 = Inl e \<longrightarrow>
      main_loop n prm components center (pre @ cid # post) dwg g = Inl (e, dwg1))
   \<and> (parse_components prm g = Inr (components, g1) \<longrightarrow>
      main n prm g =
        main_loop n prm components
          (of_int (fst (canvas_size prm)) / 2, of_int (snd (canvas_size prm)) / 2)
          (component_to_draw prm) [] g1)"
proof (intro conjI impI; (elim conjE)?)
  assume "fill_options (style_of c) = [] \<or> opacity_options (style_of c) = []"
  then show "draw n prm c center sz rotation g = Inl IndexError"
    by (rule draw_empty_fill_or_opacity)
next
  assume "parse_components prm g = Inr (components, g1)" "components cid = Some (Some c)"
    "size_options (style_of c) = [] \<or> rotation_options (style_of c) = []"
  then show "draw_component (Suc n) prm center cid g = Inl IndexError"
    by (auto simp: random_choice_def)
next
  assume "parse_components prm g = Inr (components, g1)" "components cid = Some (Some c)"
    "random_choice (size_options (style_of c)) g1 = Inr (size_opt, g2)"
    "random_choice (rotation_options (style_of c)) g2 = Inr (rotation_opt, g3)"
    "draw n prm c center size_opt rotation_opt g3 = Inl e"
  then show "draw_component (Suc n) prm center cid g = Inl e"
    by simp
next
  assume a: "fill_options st \<noteq> []" "opacity_options st \<noteq> []"
    "draw_component n prm center center_element (g\<lparr>pos := pos g + 2\<rparr>) = Inl e"
  then show "draw n prm (Polygon i st vc (Some center_element)) center sz rotation g = Inl e"
    by (simp add: Let_def random_choice_def)
  from a show "draw n prm (PolygonGroup i st vc ve (Some center_element)) center sz rotation g
      = Inl e"
    by (simp add: Let_def random_choice_def)
next
  assume "draw_vertex_circles n prm points_list ixs g = Inr (children, g1)"
    "draw_component n prm (points_list ! k) ''circle'' g1 = Inl e"
  then show "draw_vertex_circles n prm points_list (ixs @ k # rest) g = Inl e"
    by (simp add: draw_vertex_circles_append)
next
  assume a: "fill_options st \<noteq> []" "opacity_options st \<noteq> []"
    "case ce of
       None \<Rightarrow> g3 = g\<lparr>pos := pos g + 2\<rparr>
     | Some center_element \<Rightarrow>
         (\<exists>center_component.
             draw_component n prm center center_element (g\<lparr>pos := pos g + 2\<rparr>)
               = Inr (center_component, g3))"
    "draw_vertex_circles n prm (polygon_points vc center sz) [0..<nat vc] g3 = Inl e"
  then show "draw n prm (PolygonGroup i st vc (Some ''circle'') ce) center sz rotation g = Inl e"
    by (cases ce) (auto simp: Let_def random_choice_def)
next
  assume "main_loop n prm components center pre dwg g = Inr (dwg1, g1)"
    "components cid = Some (Some c)"
    "fill_options (style_of c) = [] \<or> opacity_options (style_of c) = []
       \<or> size_options (style_of c) = [] \<or> rotation_options (style_of c) = []"
  then show "main_loop n prm components center (pre @ cid # post) dwg g = Inl (IndexError, dwg1)"
    by (rule main_loop_empty_option)
next
  assume "main_loop n prm components center pre dwg g = Inr (dwg1, g1)"
    "components cid = Some (Some c)"
    "random_choice (size_options (style_of c)) g1 = Inr (size_opt, g2)"
    "random_choice (rotation_options (style_of c)) g2 = Inr (rotation_opt, g3)"
    "draw n prm c center size_opt rotation_opt g3 = Inl e"
  then show "main_loop n prm components center (pre @ cid # post) dwg g = Inl (e, dwg1)"
    by (rule main_loop_draw_error)
next
  assume "parse_components prm g = Inr (components, g1)"
  then show "main n prm g =
        main_loop n prm components
          (of_int (fst (canvas_size prm)) / 2, of_int (snd (canvas_size prm)) / 2)
          (component_to_draw prm) [] g1"
    by (simp add: main_def Let_def)
qed

text \<open>
  The run of a nested failure: \<open>tri\<close> is listed after \<open>circle\<close> and centered on \<open>bad\<close>, which
  has no fill option.
\<close>

theorem empty_option_set_is_fatal_witness:
  "draw 0 params_nested_bad (Circle ''bad'' style_no_fill) (100, 100) 100 0 (rng0\<lparr>pos := 14\<rparr>)
     = Inl IndexError
   \<and> draw_component (Suc 0) params_nested_bad (100, 100) ''bad'' (rng0\<lparr>pos := 10\<rparr>)
     = Inl IndexError
   \<and> draw (Suc 0) params_nested_bad (Polygon ''tri'' style_red 3 (Some ''bad'')) (100, 100) 100 0
       (rng0\<lparr>pos := 8\<rparr>)
     = Inl IndexError
   \<and> main (Suc 0) params_nested_bad rng0
     = Inl (IndexError, [CircleNode (100, 100) 50 ''red'' 1])"
proof -
  let ?prm = params_nested_bad
  let ?comps = "[''circle'' \<mapsto> Some (Circle ''circle'' style_red),
             ''tri'' \<mapsto> Some (Polygon ''tri'' style_red 3 (Some ''bad'')),
             ''bad'' \<mapsto> Some (Circle ''bad'' style_no_fill)]"
  let ?bad = "Circle ''bad'' style_no_fill"
  let ?tri = "Polygon ''tri'' style_red 3 (Some ''bad'')"
  have a: "draw 0 ?prm ?bad (100, 100) 100 0 (rng0\<lparr>pos := 14\<rparr>) = Inl IndexError"
  proof -
    have "fill_options (style_of ?bad) = [] \<or> opacity_options (style_of ?bad) = []"
      by (simp add: style_no_fill_def)
    with empty_option_set_is_fatal
      [where c = ?bad and n = 0 and prm = ?prm and center = "(100, 100)" and sz = 100
         and rotation = 0 and g = "rng0\<lparr>pos := 14\<rparr>", THEN conjunct1]
    show ?thesis by (rule mp)
  qed
  have b: "draw_component (Suc 0) ?prm (100, 100) ''bad'' (rng0\<lparr>pos := 10\<rparr>) = Inl IndexError"
  proof -
    have "parse_components ?prm (rng0\<lparr>pos := 10\<rparr>) = Inr (?comps, rng0\<lparr>pos := 12\<rparr>)
        \<and> ?comps ''bad'' = Some (Some ?bad)
        \<and> random_choice (size_options (style_of ?bad)) (rng0\<lparr>pos := 12\<rparr>)
            = Inr (100, rng0\<lparr>pos := 13\<rparr>)
        \<and> random_choice (rotation_options (style_of ?bad)) (rng0\<lparr>pos := 13\<rparr>)
            = Inr (0, rng0\<lparr>pos := 14\<rparr>)
        \<and> draw 0 ?prm ?bad (100, 100) 100 0 (rng0\<lparr>pos := 14\<rparr>) = Inl IndexError"
      using a
      by (simp add: params_nested_bad_parse random_choice_def style_no_fill_def rng0_def)
    with empty_option_set_is_fatal
      [where c = ?bad and n = 0 and prm = ?prm and center = "(100, 100)"
         and g = "rng0\<lparr>pos := 10\<rparr>" and components = ?comps and ?g1.0 = "rng0\<lparr>pos := 12\<rparr>"
         and cid = "''bad''" and size_opt = 100 and ?g2.0 = "rng0\<lparr>pos := 13\<rparr>"
         and rotation_opt = 0 and ?g3.0 = "rng0\<lparr>pos := 14\<rparr>" and e = IndexError,
         THEN conjunct2, THEN conjunct2, THEN conjunct1]
    show ?thesis by (rule mp)
  qed
  have c: "draw (Suc 0) ?prm ?tri (100, 100) 100 0 (rng0\<lparr>pos := 8\<rparr>) = Inl IndexError"
  proof -
    have "fill_options style_red \<noteq> [] \<and> opacity_options style_red \<noteq> []
        \<and> draw_component (Suc 0) ?prm (100, 100) ''bad''
             ((rng0\<lparr>pos := 8\<rparr>)\<lparr>pos := pos (rng0\<lparr>pos := 8\<rparr>) + 2\<rparr>) = Inl IndexError"
      using b by (simp add: style_red_def)
    with empty_option_set_is_fatal
      [where n = "Suc 0" and prm = ?prm and center = "(100, 100)" and sz = 100 and rotation = 0
         and g = "rng0\<lparr>pos := 8\<rparr>" and st = style_red and center_element = "''bad''"
         and e = IndexError and i = "''tri''" and vc = 3,
         THEN conjunct2, THEN conjunct2, THEN conjunct2, THEN conjunct1]
    have "draw (Suc 0) ?prm ?tri (100, 100) 100 0 (rng0\<lparr>pos := 8\<rparr>) = Inl IndexError
        \<and> draw (Suc 0) ?prm (PolygonGroup ''tri'' style_red 3 ve (Some ''bad'')) (100, 100) 100 0
            (rng0\<lparr>pos := 8\<rparr>) = Inl IndexError" for ve
      by (rule mp)
    then show ?thesis by (rule conjunct1)
  qed
  have d: "main_loop (Suc 0) ?prm ?comps (100, 100) ([''circle''] @ ''tri'' # []) []
             (rng0\<lparr>pos := 2\<rparr>)
           = Inl (IndexError, [CircleNode (100, 100) 50 ''red'' 1])"
  proof -
    have "main_loop (Suc 0) ?prm ?comps (100, 100) [''circle''] [] (rng0\<lparr>pos := 2\<rparr>)
            = Inr ([CircleNode (100, 100) 50 ''red'' 1], rng0\<lparr>pos := 6\<rparr>)
        \<and> ?comps ''tri'' = Some (Some ?tri)
        \<and> random_choice (size_options (style_of ?tri)) (rng0\<lparr>pos := 6\<rparr>)
            = Inr (100, rng0\<lparr>pos := 7\<rparr>)
        \<and> random_choice (rotation_options (style_of ?tri)) (rng0\<lparr>pos := 7\<rparr>)
            = Inr (0, rng0\<lparr>pos := 8\<rparr>)
        \<and> draw (Suc 0) ?prm ?tri (100, 100) 100 0 (rng0\<lparr>pos := 8\<rparr>) = Inl IndexError"
      using c
      by (simp add: random_choice_def style_red_def rng0_def Circle_draw_def)
    with empty_option_set_is_fatal
      [where n = "Suc 0" and prm = ?prm and center = "(100, 100)" and components = ?comps
         and pre = "[''circle'']" and dwg = "[]" and g = "rng0\<lparr>pos := 2\<rparr>"
         and ?dwg1.0 = "[CircleNode (100, 100) 50 ''red'' 1]" and ?g1.0 = "rng0\<lparr>pos := 6\<rparr>"
         and cid = "''tri''" and c = ?tri and size_opt = 100 and ?g2.0 = "rng0\<lparr>pos := 7\<rparr>"
         and rotation_opt = 0 and ?g3.0 = "rng0\<lparr>pos := 8\<rparr>" and e = IndexError
         and post = "[]",
         THEN conjunct2, THEN conjunct2, THEN conjunct2, THEN conjunct2, THEN conjunct2,
         THEN conjunct2, THEN conjunct2, THEN conjunct1]
    show ?thesis by (rule mp)
  qed
  have m: "main (Suc 0) ?prm rng0 = Inl (IndexError, [CircleNode (100, 100) 50 ''red'' 1])"
  proof -
    have p: "parse_components ?prm rng0 = Inr (?comps, rng0\<lparr>pos := 2\<rparr>)"
      by (simp add: params_nested_bad_parse rng0_def)
    from empty_option_set_is_fatal
      [where n = "Suc 0" and prm = ?prm and g = rng0 and components = ?comps
         and ?g1.0 = "rng0\<lparr>pos := 2\<rparr>",
         THEN conjunct2, THEN conjunct2, THEN conjunct2, THEN conjunct2, THEN conjunct2,
         THEN conjunct2, THEN conjunct2, THEN conjunct2, THEN mp, OF p]
    have "main (Suc 0) ?prm rng0
        = main_loop (Suc 0) ?prm ?comps (100, 100) ([''circle''] @ ''tri'' # []) []
            (rng0\<lparr>pos := 2\<rparr>)"
      by (simp add: params_nested_bad_fields)
    then show ?thesis using d by (rule trans)
  qed
  show ?thesis
    by (rule conjI [OF a conjI [OF b conjI [OF c m]]])
qed

text \<open>
  The second component has no fill option: the error is raised after the first circle
  has been drawn and added.
\<close>

theorem empty_option_set_counterexample:
  "main 0 params_bad rng0 = Inl (IndexError, [CircleNode (100, 100) 50 ''red'' 1])"
  by (simp add: main_def params_bad_def parse_components_def circle_def_def
      random_choice_def rng0_def style_red_def style_no_fill_def Let_def Circle_draw_def)

subsection \<open>Choices made at construction and choices made at every draw\<close>

text \<open>
  C8. For a Polygon or PolygonGroup built from an entry \<open>d\<close> with the generator in state
  \<open>g0\<close>, the vertex count, the vertex elements and the center element are the choices made
  from \<open>g0\<close> in \<open>__init__\<close>. Every later draw call on that instance, in any generator
  state \<open>g\<close>, builds a polygon of \<open>vertex_count + 1\<close> points and the same number of
  children, while its fill and opacity are chosen anew from \<open>g\<close>; size and rotation are
  arguments, chosen by the caller for each call. A draw method takes the instance as a
  value and returns only the node and the generator: no draw method assigns to a field
  of the instance or of the configuration.
\<close>

theorem construction_choices_are_stable:
  assumes "create_component d g0 = Inr (Some c, g1)"
    and "etype d = ''Polygon'' \<or> etype d = ''PolygonGroup''"
    and "draw n prm c center sz rotation g = Inr (nd, g')"
  shows "let st = estyle d;
             vcs = (if etype d = ''Polygon'' then vertex_count d else vertex_count_options d);
             vc = vcs ! (tape g0 (pos g0) mod length vcs);
             ve = vertex_elements d ! (tape g0 (pos g0 + 1) mod length (vertex_elements d));
             ce = center_elements d
                    ! (tape g0 (pos g0 + (if etype d = ''Polygon'' then 1 else 2))
                         mod length (center_elements d))
         in c = (if etype d = ''Polygon'' then Polygon (eid d) st vc ce
                 else PolygonGroup (eid d) st vc ve ce)
          \<and> primitive_of nd =
              PolygonNode (polygon_points vc center sz)
                (fill_options st ! (tape g (pos g) mod length (fill_options st)))
                (opacity_options st ! (tape g (pos g + 1) mod length (opacity_options st)))
                (if etype d = ''Polygon'' \<and> rotation \<noteq> 0 then Some (rotation, center) else None)
          \<and> length (polygon_points vc center sz) = nat vc + 1
          \<and> length (children_of nd) =
              (if etype d = ''Polygon'' then (if ce = None then 0 else 2)
               else 1 + (if ce = None then 0 else 1)
                      + (if ve = Some ''circle'' \<or> ve = Some ''polygon'' then nat vc else 0))"
proof (cases "etype d = ''Polygon''")
  case True
  note c = create_component_Polygon [OF assms(1) True]
  from Polygon_draw_shape [OF assms(3) [unfolded c]] c True show ?thesis
    by (simp add: Let_def length_polygon_points rotation_transform_def)
next
  case False
  with assms(2) have pg: "etype d = ''PolygonGroup''" by simp
  note c = create_component_PolygonGroup [OF assms(1) pg]
  from PolygonGroup_draw_shape [OF assms(3) [unfolded c]] c False show ?thesis
    by (simp add: Let_def length_polygon_points)
qed

theorem construction_choices_are_stable_witness:
  "(create_component polygon_3_or_5 rng0
     = Inr (Some (Polygon ''p'' style_rgb 3 None), rng0\<lparr>pos := 2\<rparr>))
   \<and> (etype polygon_3_or_5 = ''Polygon'' \<or> etype polygon_3_or_5 = ''PolygonGroup'')
   \<and> (draw 0 params_empty (Polygon ''p'' style_rgb 3 None) (100, 100) 40 30 (rng0\<lparr>pos := 2\<rparr>)
     = Inr (PolygonNode (polygon_points 3 (100, 100) 40) ''blue'' 1 (Some (30, (100, 100))),
            rng0\<lparr>pos := 4\<rparr>))
   \<and> (let st = estyle polygon_3_or_5;
             vcs = (if etype polygon_3_or_5 = ''Polygon'' then vertex_count polygon_3_or_5 else vertex_count_options polygon_3_or_5);
             vc = vcs ! (tape rng0 (pos rng0) mod length vcs);
             ve = vertex_elements polygon_3_or_5 ! (tape rng0 (pos rng0 + 1) mod length (vertex_elements polygon_3_or_5));
             ce = center_elements polygon_3_or_5
                    ! (tape rng0 (pos rng0 + (if etype polygon_3_or_5 = ''Polygon'' then 1 else 2))
                         mod length (center_elements polygon_3_or_5))
         in (Polygon ''p'' style_rgb 3 None) = (if etype polygon_3_or_5 = ''Polygon'' then Polygon (eid polygon_3_or_5) st vc ce
                 else PolygonGroup (eid polygon_3_or_5) st vc ve ce)
          \<and> primitive_of (PolygonNode (polygon_points 3 (100, 100) 40) ''blue'' 1 (Some (30, (100, 100)))) =
              PolygonNode (polygon_points vc (100, 100) 40)
                (fill_options st ! (tape (rng0\<lparr>pos := 2\<rparr>) (pos (rng0\<lparr>pos := 2\<rparr>)) mod length (fill_options st)))
                (opacity_options st ! (tape (rng0\<lparr>pos := 2\<rparr>) (pos (rng0\<lparr>pos := 2\<rparr>) + 1) mod length (opacity_options st)))
                (if etype polygon_3_or_5 = ''Polygon'' \<and> (30::real) \<noteq> 0 then Some ((30::real), (100, 100)) else None)
          \<and> length (polygon_points vc (100, 100) 40) = nat vc + 1
          \<and> length (children_of (PolygonNode (polygon_points 3 (100, 100) 40) ''blue'' 1 (Some (30, (100, 100))))) =
              (if etype polygon_3_or_5 = ''Polygon'' then (if ce = None then 0 else 2)
               else 1 + (if ce = None then 0 else 1)
                      + (if ve = Some ''circle'' \<or> ve = Some ''polygon'' then nat vc else 0)))"
proof -
  have h1: "create_component polygon_3_or_5 rng0
     = Inr (Some (Polygon ''p'' style_rgb 3 None), rng0\<lparr>pos := 2\<rparr>)"
    by (simp add: polygon_3_or_5_def polygon_def_def random_choice_def rng0_def)
  have h2: "etype polygon_3_or_5 = ''Polygon'' \<or> etype polygon_3_or_5 = ''PolygonGroup''"
    by (simp add: polygon_3_or_5_def polygon_def_def)
  have h3: "draw 0 params_empty (Polygon ''p'' style_rgb 3 None) (100, 100) 40 30 (rng0\<lparr>pos := 2\<rparr>)
     = Inr (PolygonNode (polygon_points 3 (100, 100) 40) ''blue'' 1 (Some (30, (100, 100))),
            rng0\<lparr>pos := 4\<rparr>)"
    by (simp add: Let_def random_choice_def rng0_def style_rgb_def rotation_transform_def)
  note t = construction_choices_are_stable [OF h1 h2 h3]
  show ?thesis
    by (rule conjI [OF h1 conjI [OF h2 conjI [OF h3 t]]])
qed

subsection \<open>The scene in request order\<close>

text \<open>
  C9. When \<open>main\<close> returns, the scene holds one node per entry of \<open>component_to_draw\<close>,
  in that order: entry \<open>k\<close> is the component stored under that id, drawn at the center
  \<open>(width / 2, height / 2)\<close> of the canvas, which all entries share, with a size and a
  rotation chosen from that component's own options.
\<close>

theorem main_draws_in_request_order:
  assumes "main n prm g = Inr (scene, g')"
  shows "\<exists>components gs.
           length scene = length (component_to_draw prm)
         \<and> length gs = Suc (length (component_to_draw prm))
         \<and> parse_components prm g = Inr (components, gs ! 0)
         \<and> gs ! length (component_to_draw prm) = g'
         \<and> (\<forall>k<length (component_to_draw prm).
               \<exists>component size_opt g1 rotation_opt g2.
                  components (component_to_draw prm ! k) = Some (Some component)
                \<and> random_choice (size_options (style_of component)) (gs ! k) = Inr (size_opt, g1)
                \<and> random_choice (rotation_options (style_of component)) g1
                    = Inr (rotation_opt, g2)
                \<and> draw n prm component
                     (of_int (fst (canvas_size prm)) / 2, of_int (snd (canvas_size prm)) / 2)
                     size_opt rotation_opt g2
                    = Inr (scene ! k, gs ! Suc k))"
proof -
  from assms obtain components g0 where
    p: "parse_components prm g = Inr (components, g0)"
    and m: "main_loop n prm components
              (of_int (fst (canvas_size prm)) / 2, of_int (snd (canvas_size prm)) / 2)
              (component_to_draw prm) [] g0 = Inr (scene, g')"
    by (auto simp: main_def Let_def split: sum.splits prod.splits)
  from main_loop_Inr [OF m] p show ?thesis
    by (elim exE conjE) (intro exI conjI, auto)
qed

theorem main_draws_in_request_order_witness:
  "(main 0 params_scene rng0
     = Inr ([PolygonNode (polygon_points 3 (100, 100) 100) ''red'' 1 None,
        CircleNode (100, 100) 50 ''red'' 1], rng0\<lparr>pos := 10\<rparr>))
   \<and> (\<exists>components gs.
           length [PolygonNode (polygon_points 3 (100, 100) 100) ''red'' 1 None,
        CircleNode (100, 100) 50 ''red'' 1] = length (component_to_draw params_scene)
         \<and> length gs = Suc (length (component_to_draw params_scene))
         \<and> parse_components params_scene rng0 = Inr (components, gs ! 0)
         \<and> gs ! length (component_to_draw params_scene) = (rng0\<lparr>pos := 10\<rparr>)
         \<and> (\<forall>k<length (component_to_draw params_scene).
               \<exists>component size_opt g1 rotation_opt g2.
                  components (component_to_draw params_scene ! k) = Some (Some component)
                \<and> random_choice (size_options (style_of component)) (gs ! k) = Inr (size_opt, g1)
                \<and> random_choice (rotation_options (style_of component)) g1
                    = Inr (rotation_opt, g2)
                \<and> draw 0 params_scene component
                     (of_int (fst (canvas_size params_scene)) / 2, of_int (snd (canvas_size params_scene)) / 2)
                     size_opt rotation_opt g2
                    = Inr ([PolygonNode (polygon_points 3 (100, 100) 100) ''red'' 1 None,
        CircleNode (100, 100) 50 ''red'' 1] ! k, gs ! Suc k)))"
proof -
  have h1: "main 0 params_scene rng0
     = Inr ([PolygonNode (polygon_points 3 (100, 100) 100) ''red'' 1 None,
        CircleNode (100, 100) 50 ''red'' 1], rng0\<lparr>pos := 10\<rparr>)"
    by (rule main_params_scene)
  note t = main_draws_in_request_order [OF h1]
  show ?thesis
    by (rule conjI [OF h1 t])
qed

subsection \<open>Size and rotation are resolved by the caller\<close>

text \<open>
  C10. Both callers of a draw method, \<open>draw_component\<close> and the loop of \<open>main\<close>, choose a
  size and then a rotation from the component's own \<open>size_options\<close> and
  \<open>rotation_options\<close> before they dispatch: when either list is empty the call fails
  with IndexError and the draw method is not reached, for every variant, also for a
  Circle, whose draw method would not use the rotation.
\<close>

theorem caller_resolves_size_and_rotation:
  assumes "parse_components prm g = Inr (components, g1)"
    and "components cid = Some (Some component)"
  shows "draw_component (Suc n) prm center cid g =
              (if size_options (style_of component) = []
                  \<or> rotation_options (style_of component) = [] then Inl IndexError
               else draw n prm component center
                      (size_options (style_of component)
                         ! (tape g1 (pos g1) mod length (size_options (style_of component))))
                      (rotation_options (style_of component)
                         ! (tape g1 (Suc (pos g1)) mod length (rotation_options (style_of component))))
                      (g1\<lparr>pos := Suc (Suc (pos g1))\<rparr>))
       \<and> main_loop n prm components center (cid # rest) dwg g1 =
              (if size_options (style_of component) = []
                  \<or> rotation_options (style_of component) = [] then Inl (IndexError, dwg)
               else case draw n prm component center
                      (size_options (style_of component)
                         ! (tape g1 (pos g1) mod length (size_options (style_of component))))
                      (rotation_options (style_of component)
                         ! (tape g1 (Suc (pos g1)) mod length (rotation_options (style_of component))))
                      (g1\<lparr>pos := Suc (Suc (pos g1))\<rparr>) of
                      Inl e \<Rightarrow> Inl (e, dwg)
                    | Inr (element, g3) \<Rightarrow>
                        main_loop n prm components center rest (dwg @ [element]) g3)"
  using assms by (auto simp: random_choice_def)

theorem caller_resolves_size_and_rotation_witness:
  "parse_components params_no_rotation rng0
      = Inr ([''circle'' \<mapsto> Some (Circle ''circle'' style_no_rotation)], rng0)
   \<and> [''circle'' \<mapsto> Some (Circle ''circle'' style_no_rotation)] ''circle''
      = Some (Some (Circle ''circle'' style_no_rotation))
   \<and> draw_component 1 params_no_rotation (100, 100) ''circle'' rng0 = Inl IndexError
   \<and> main_loop 0 params_no_rotation [''circle'' \<mapsto> Some (Circle ''circle'' style_no_rotation)]
        (100, 100) [''circle''] [] rng0 = Inl (IndexError, [])"
proof -
  have h1: "parse_components params_no_rotation rng0
      = Inr ([''circle'' \<mapsto> Some (Circle ''circle'' style_no_rotation)], rng0)"
    by (simp add: parse_components_def params_no_rotation_def circle_def_def)
  have h2: "[''circle'' \<mapsto> Some (Circle ''circle'' style_no_rotation)] ''circle''
      = Some (Some (Circle ''circle'' style_no_rotation))"
    by simp
  have c: "size_options (style_of (Circle ''circle'' style_no_rotation)) = []
      \<or> rotation_options (style_of (Circle ''circle'' style_no_rotation)) = []"
    by (simp add: style_no_rotation_def)
  note t = caller_resolves_size_and_rotation [OF h1 h2, of 0 "(100, 100)" "[]" "[]"]
  have a: "draw_component 1 params_no_rotation (100, 100) ''circle'' rng0 = Inl IndexError"
    using t c by (simp only: if_True One_nat_def)
  have b: "main_loop 0 params_no_rotation
        [''circle'' \<mapsto> Some (Circle ''circle'' style_no_rotation)]
        (100, 100) [''circle''] [] rng0 = Inl (IndexError, [])"
    using t c by (simp only: if_True)
  show ?thesis
    using h1 h2 a b by blast
qed

end
